theory Spec2Isabelle
  imports Complex_Main "HOL-Library.Char_ord" "HOL-Library.List_Lexorder"
begin

section \<open>Video concatenation with music: a model of addVideosToMusic_Fitness.py\<close>

text \<open>
  The script shells out to \<^verbatim>\<open>ffprobe\<close> and \<^verbatim>\<open>ffmpeg\<close>. The model keeps every
  decision the script takes and makes the outside world explicit:
  \<^item> a \<open>world\<close> holds the files on disk (path to text) and the list of \<^verbatim>\<open>ffmpeg\<close>
    commands run so far, each with the way its process ended;
  \<^item> an \<open>env\<close> holds what the script cannot decide by itself: the two external tools,
    the directory listing, and the Python library functions \<^verbatim>\<open>json.loads\<close>,
    \<^verbatim>\<open>eval\<close>, \<^verbatim>\<open>float\<close> on text, \<^verbatim>\<open>str\<close> on floats and
    \<^verbatim>\<open>str.lower\<close>;
  \<^item> an exception is a value \<open>Inl err\<close> of a sum type.
  Python floats are modelled by their exact rational value (rounding, infinities and NaN
  are outside the model). The \<^verbatim>\<open>print\<close> calls and the progress bar have no effect
  on any result and are left out, as are the creation of the working directory when the
  module is loaded (line 29) and \<^verbatim>\<open>calculate_total_duration\<close>, which nothing calls.
\<close>

subsection \<open>Paths (pathlib, Windows flavour)\<close>

text \<open>
  A path is the text \<^verbatim>\<open>str(path)\<close> gives: components separated by a backslash.
\<close>

type_synonym path = string

definition sep :: char where
  "sep = CHR 0x5C"

definition LF :: char where
  "LF = CHR 0x0A"

text \<open>\<^verbatim>\<open>parent / child\<close> for a relative child of one component.\<close>

definition joinpath :: "path \<Rightarrow> string \<Rightarrow> path" where
  "joinpath parent child = parent @ [sep] @ child"

text \<open>\<^verbatim>\<open>path.name\<close>: the final component.\<close>

definition name :: "path \<Rightarrow> string" where
  "name p = rev (takeWhile (\<lambda>c. c \<noteq> sep) (rev p))"

text \<open>\<^verbatim>\<open>s.rfind(c)\<close>: the index of the last occurrence, or -1.\<close>

definition rfind :: "string \<Rightarrow> char \<Rightarrow> int" where
  "rfind s c =
     (if c \<in> set s then int (length s) - 1 - int (length (takeWhile (\<lambda>x. x \<noteq> c) (rev s)))
      else - 1)"

text \<open>
  \<^verbatim>\<open>path.suffix\<close> and \<^verbatim>\<open>path.stem\<close>: pathlib splits the name at its last dot,
  unless that dot is the first or the last character of the name.
\<close>

definition suffix :: "path \<Rightarrow> string" where
  "suffix p =
     (let n = name p; i = rfind n (CHR ''.'')
      in if 0 < i \<and> i < int (length n) - 1 then drop (nat i) n else [])"

definition stem :: "path \<Rightarrow> string" where
  "stem p =
     (let n = name p; i = rfind n (CHR ''.'')
      in if 0 < i \<and> i < int (length n) - 1 then take (nat i) n else n)"

text \<open>
  Lower-casing of the ASCII letters, every other byte left as it is: what
  \<^verbatim>\<open>s.lower()\<close> gives on ASCII text. Python itself lower-cases by the Unicode
  rules; the program takes that function from its environment (\<open>str_lower\<close> below).
\<close>

definition lower_char :: "char \<Rightarrow> char" where
  "lower_char c =
     (case map_of (zip ''ABCDEFGHIJKLMNOPQRSTUVWXYZ'' ''abcdefghijklmnopqrstuvwxyz'') c of
        None \<Rightarrow> c
      | Some l \<Rightarrow> l)"

definition lower :: "string \<Rightarrow> string" where
  "lower s = map lower_char s"

text \<open>\<^verbatim>\<open>path.as_posix()\<close>: \<^verbatim>\<open>str(self).replace(sep, '/')\<close>.\<close>

definition as_posix :: "path \<Rightarrow> string" where
  "as_posix p = map (\<lambda>c. if c = sep then CHR ''/'' else c) p"

subsection \<open>Configuration\<close>

definition VIDEO_DIR :: path where
  "VIDEO_DIR =
     joinpath (joinpath (joinpath (joinpath (joinpath ''C:'' ''Users'') ''Ryzen 5500'')
       ''Desktop'') ''Tryhard songs'') ''Training''"

definition MUSIC_DIR :: path where
  "MUSIC_DIR = joinpath VIDEO_DIR ''Music''"

definition OUTPUT_PATH :: path where
  "OUTPUT_PATH = joinpath VIDEO_DIR ''final_video_fast.mp4''"

definition TRANSCODED_DIR :: path where
  "TRANSCODED_DIR = joinpath VIDEO_DIR ''transcoded''"

definition VIDEO_EXTENSIONS :: "string list" where
  "VIDEO_EXTENSIONS = [''.mp4'', ''.mov'', ''.mkv'', ''.avi'', ''.m4a'', ''.3gp'', ''.3g2'']"

definition AUDIO_EXTENSIONS :: "string list" where
  "AUDIO_EXTENSIONS = [''.mp3'', ''.wav'', ''.m4a'', ''.aac'']"

definition FADE_IN_SECONDS :: rat where
  "FADE_IN_SECONDS = 1 / 2"

definition FADE_OUT_SECONDS :: rat where
  "FADE_OUT_SECONDS = 1"

subsection \<open>Exceptions, Python values, the outside world\<close>

datatype error =
  RuntimeError | ZeroDivisionError | AttributeError | TypeError | ValueError
  | SyntaxError | NameError | OSError

text \<open>What \<^verbatim>\<open>json.loads\<close> returns; an object keeps its keys in order, each key once.\<close>

datatype json =
  JNull | JBool bool | JNum rat | JStr string | JArr "json list" | JObj "(string \<times> json) list"

text \<open>How \<^verbatim>\<open>subprocess.run\<close> ended: it raised, or it completed with a return code and stdout.\<close>

datatype run_result = Run_raised | Completed int string

text \<open>
  How the \<^verbatim>\<open>ffmpeg\<close> process of \<^verbatim>\<open>run_ffmpeg\<close> ended: anything raised while
  launching or waiting, or an exit with a return code. A process that never exits is
  not represented: no claim is about it.
\<close>

datatype proc_result = Popen_raised | Exited int

record world =
  files :: "path \<rightharpoonup> string"
  ran :: "(string list \<times> proc_result) list"

record env =
  ffprobe :: "world \<Rightarrow> string list \<Rightarrow> run_result"
  ffmpeg :: "world \<Rightarrow> string list \<Rightarrow> proc_result \<times> (path \<rightharpoonup> string)"
  iterdir :: "world \<Rightarrow> path \<Rightarrow> error + path list"
  json_loads :: "string \<Rightarrow> json option"
  py_eval :: "string \<Rightarrow> error + rat"
  str_to_float :: "string \<Rightarrow> rat option"
  str_float :: "rat \<Rightarrow> string"
  str_lower :: "string \<Rightarrow> string"

text \<open>\<^verbatim>\<open>path.exists()\<close>.\<close>

definition exists_file :: "world \<Rightarrow> path \<Rightarrow> bool" where
  "exists_file w p = (files w p \<noteq> None)"

text \<open>\<^verbatim>\<open>d.get(key)\<close> and \<^verbatim>\<open>d.get(key, default)\<close> on the items of a dict.\<close>

definition dict_get :: "(string \<times> json) list \<Rightarrow> string \<Rightarrow> json \<Rightarrow> json" where
  "dict_get items key dflt = (case map_of items key of None \<Rightarrow> dflt | Some v \<Rightarrow> v)"

subsection \<open>Media analysis: get_media_info, get_duration\<close>

text \<open>
  The dict \<^verbatim>\<open>get_media_info\<close> returns: a field is \<open>None\<close> when its key is absent,
  so \<^verbatim>\<open>{}\<close> is the record with every field \<open>None\<close>.
\<close>

record media_info =
  duration :: "rat option"
  video_codec :: "json option"
  width :: "json option"
  height :: "json option"
  fps :: "rat option"
  audio_codec :: "json option"

definition empty_info :: media_info where
  "empty_info = \<lparr>duration = None, video_codec = None, width = None, height = None,
     fps = None, audio_codec = None\<rparr>"

definition probe_command :: "path \<Rightarrow> string list" where
  "probe_command file_path =
     [''ffprobe'', ''-v'', ''quiet'', ''-print_format'', ''json'',
      ''-show_format'', ''-show_streams'', file_path]"

text \<open>\<^verbatim>\<open>eval(x)\<close>: only text is evaluated; any other argument is a TypeError.\<close>

fun eval_value :: "env \<Rightarrow> json \<Rightarrow> error + rat" where
  "eval_value e (JStr s) = py_eval e s"
| "eval_value e _ = Inl TypeError"

text \<open>
  \<^verbatim>\<open>float(x)\<close>; \<open>None\<close> when it raises. A number converts unless it lies beyond
  the range of a double, where \<^verbatim>\<open>float\<close> of an int raises OverflowError: from
  \<open>2 ^ 1024 - 2 ^ 970\<close> on, the first value that no longer rounds to a finite double.
\<close>

fun float_value :: "env \<Rightarrow> json \<Rightarrow> rat option" where
  "float_value e (JNum q) = (if \<bar>q\<bar> < 2 ^ 1024 - 2 ^ 970 then Some q else None)"
| "float_value e (JBool b) = Some (if b then 1 else 0)"
| "float_value e (JStr s) = str_to_float e s"
| "float_value e _ = None"

text \<open>What \<^verbatim>\<open>for stream in x\<close> iterates over, for each kind of value \<open>x\<close>.\<close>

fun iterate :: "json \<Rightarrow> error + json list" where
  "iterate (JArr xs) = Inr xs"
| "iterate (JObj items) = Inr (map (\<lambda>kv. JStr (fst kv)) items)"
| "iterate (JStr s) = Inr (map (\<lambda>c. JStr [c]) s)"
| "iterate _ = Inl TypeError"

text \<open>One round of the loop over the streams (lines 116 to 125).\<close>

fun stream_step :: "env \<Rightarrow> json \<Rightarrow> media_info \<Rightarrow> error + media_info" where
  "stream_step e (JObj stream) info =
     (let codec = dict_get stream ''codec_type'' JNull
      in if codec = JStr ''video'' then
           (case eval_value e (dict_get stream ''r_frame_rate'' (JStr ''0/1'')) of
              Inl err \<Rightarrow> Inl err
            | Inr rate \<Rightarrow>
                Inr (info\<lparr>video_codec := Some (dict_get stream ''codec_name'' JNull),
                          width := Some (dict_get stream ''width'' JNull),
                          height := Some (dict_get stream ''height'' JNull),
                          fps := Some rate\<rparr>))
         else if codec = JStr ''audio'' then
           Inr (info\<lparr>audio_codec := Some (dict_get stream ''codec_name'' JNull)\<rparr>)
         else Inr info)"
| "stream_step e _ info = Inl AttributeError"

fun stream_loop :: "env \<Rightarrow> json list \<Rightarrow> media_info \<Rightarrow> error + media_info" where
  "stream_loop e [] info = Inr info"
| "stream_loop e (stream # streams) info =
     (case stream_step e stream info of
        Inl err \<Rightarrow> Inl err
      | Inr info' \<Rightarrow> stream_loop e streams info')"

text \<open>
  Lines 127 to 130: \<^verbatim>\<open>float(data.get("format", {}).get("duration", 0))\<close> inside
  \<^verbatim>\<open>try ... except: pass\<close>; \<open>None\<close> when anything raised and the duration stays 0.0.
\<close>

definition format_duration :: "env \<Rightarrow> (string \<times> json) list \<Rightarrow> rat option" where
  "format_duration e data =
     (case dict_get data ''format'' (JObj []) of
        JObj fmt \<Rightarrow> float_value e (dict_get fmt ''duration'' (JNum 0))
      | _ \<Rightarrow> None)"

definition get_media_info :: "env \<Rightarrow> world \<Rightarrow> path \<Rightarrow> error + media_info" where
  "get_media_info e w file_path =
     (case ffprobe e w (probe_command file_path) of
        Run_raised \<Rightarrow> Inr empty_info
      | Completed returncode stdout \<Rightarrow>
          if returncode \<noteq> 0 \<or> stdout = [] then Inr empty_info
          else
            (case json_loads e stdout of
               None \<Rightarrow> Inr empty_info
             | Some (JObj data) \<Rightarrow>
                 (case iterate (dict_get data ''streams'' (JArr [])) of
                    Inl err \<Rightarrow> Inl err
                  | Inr streams \<Rightarrow>
                      (case stream_loop e streams (empty_info\<lparr>duration := Some 0\<rparr>) of
                         Inl err \<Rightarrow> Inl err
                       | Inr info \<Rightarrow>
                           Inr (case format_duration e data of
                                  None \<Rightarrow> info
                                | Some d \<Rightarrow> info\<lparr>duration := Some d\<rparr>)))
             | Some _ \<Rightarrow> Inl AttributeError))"

text \<open>\<^verbatim>\<open>info.get("duration", 0.0)\<close> and \<^verbatim>\<open>info.get("fps", 0)\<close>.\<close>

definition duration_or_0 :: "media_info \<Rightarrow> rat" where
  "duration_or_0 info = (case duration info of None \<Rightarrow> 0 | Some d \<Rightarrow> d)"

definition fps_or_0 :: "media_info \<Rightarrow> rat" where
  "fps_or_0 info = (case fps info of None \<Rightarrow> 0 | Some r \<Rightarrow> r)"

definition get_duration :: "env \<Rightarrow> world \<Rightarrow> path \<Rightarrow> error + rat" where
  "get_duration e w media_file =
     (case get_media_info e w media_file of
        Inl err \<Rightarrow> Inl err
      | Inr info \<Rightarrow> Inr (duration_or_0 info))"

subsection \<open>Frame-rate compatibility: find_majority_frame_rate\<close>

text \<open>
  \<^verbatim>\<open>frame_rate_counts\<close> is a dict, which keeps its keys in insertion order: an
  association list in which a key is updated in place or appended.
\<close>

fun counts_get :: "(rat \<times> nat) list \<Rightarrow> rat \<Rightarrow> nat" where
  "counts_get [] k = 0"
| "counts_get ((k', n) # rest) k = (if k' = k then n else counts_get rest k)"

fun counts_set :: "(rat \<times> nat) list \<Rightarrow> rat \<Rightarrow> nat \<Rightarrow> (rat \<times> nat) list" where
  "counts_set [] k v = [(k, v)]"
| "counts_set ((k', n) # rest) k v =
     (if k' = k then (k, v) # rest else (k', n) # counts_set rest k v)"

text \<open>The loop of lines 149 to 151.\<close>

fun count_frame_rates ::
  "env \<Rightarrow> world \<Rightarrow> path list \<Rightarrow> (rat \<times> nat) list \<Rightarrow> error + (rat \<times> nat) list" where
  "count_frame_rates e w [] frame_rate_counts = Inr frame_rate_counts"
| "count_frame_rates e w (video # videos) frame_rate_counts =
     (case get_media_info e w video of
        Inl err \<Rightarrow> Inl err
      | Inr info \<Rightarrow>
          count_frame_rates e w videos
            (counts_set frame_rate_counts (fps_or_0 info)
               (counts_get frame_rate_counts (fps_or_0 info) + 1)))"

text \<open>
  \<^verbatim>\<open>max(d, key=d.get)\<close> walks the keys in order and keeps the first one whose count
  no later key exceeds: the current best is replaced only by a strictly larger count.
\<close>

fun max_from :: "rat \<times> nat \<Rightarrow> (rat \<times> nat) list \<Rightarrow> rat" where
  "max_from best [] = fst best"
| "max_from best (kv # rest) =
     (if snd best < snd kv then max_from kv rest else max_from best rest)"

fun max_by_count :: "(rat \<times> nat) list \<Rightarrow> error + rat" where
  "max_by_count [] = Inl ValueError"
| "max_by_count (kv # rest) = Inr (max_from kv rest)"

definition find_majority_frame_rate ::
  "env \<Rightarrow> world \<Rightarrow> path list \<Rightarrow> error + (bool \<times> rat)" where
  "find_majority_frame_rate e w video_files =
     (if length video_files < 2 then
        (case video_files of
           [] \<Rightarrow> Inr (True, 0)
         | video # _ \<Rightarrow>
             (case get_media_info e w video of
                Inl err \<Rightarrow> Inl err
              | Inr info \<Rightarrow> Inr (True, fps_or_0 info)))
      else
        (case count_frame_rates e w video_files [] of
           Inl err \<Rightarrow> Inl err
         | Inr frame_rate_counts \<Rightarrow>
             if frame_rate_counts = [] then Inr (True, 0)
             else
               (case max_by_count frame_rate_counts of
                  Inl err \<Rightarrow> Inl err
                | Inr majority \<Rightarrow> Inr (length frame_rate_counts = 1, majority))))"

subsection \<open>Command execution: run_ffmpeg\<close>

text \<open>
  The command runs once; the call raises RuntimeError when launching or waiting raised
  (line 75) or when the return code is not 0 (line 87), and returns otherwise. The
  process may change the files. \<open>total_duration\<close> only sizes the progress bar.
\<close>

definition run_ffmpeg :: "env \<Rightarrow> string list \<Rightarrow> rat \<Rightarrow> world \<Rightarrow> (error + unit) \<times> world" where
  "run_ffmpeg e commands total_duration w =
     (let (ended, files') = ffmpeg e w commands;
          w' = \<lparr>files = files', ran = ran w @ [(commands, ended)]\<rparr>
      in case ended of
           Popen_raised \<Rightarrow> (Inl RuntimeError, w')
         | Exited returncode \<Rightarrow>
             if returncode \<noteq> 0 then (Inl RuntimeError, w') else (Inr (), w'))"

subsection \<open>Video processing: transcode_video, create_concatenation_list\<close>

text \<open>
  Lines 167 and 168: the output file of a transcode. \<^verbatim>\<open>if target_fps\<close> holds for
  a rate that is neither None nor zero.
\<close>

definition transcoded_path :: "env \<Rightarrow> path \<Rightarrow> rat option \<Rightarrow> path" where
  "transcoded_path e input_file target_fps =
     (let fps_label =
            (case target_fps of
               None \<Rightarrow> []
             | Some r \<Rightarrow> if r \<noteq> 0 then ''_fps'' @ str_float e r else [])
      in joinpath TRANSCODED_DIR (stem input_file @ ''_h264'' @ fps_label @ ''.mp4''))"

definition transcode_command :: "env \<Rightarrow> path \<Rightarrow> rat option \<Rightarrow> string list" where
  "transcode_command e input_file target_fps =
     [''ffmpeg'', ''-y'', ''-i'', input_file, ''-c:v'', ''h264_nvenc'']
     @ (case target_fps of
          None \<Rightarrow> []
        | Some r \<Rightarrow> if r \<noteq> 0 then [''-r'', str_float e r] else [])
     @ [''-c:a'', ''aac'', ''-b:a'', ''128k'', transcoded_path e input_file target_fps]"

definition transcode_video ::
  "env \<Rightarrow> path \<Rightarrow> rat option \<Rightarrow> world \<Rightarrow> (error + path) \<times> world" where
  "transcode_video e input_file target_fps w =
     (let output_file = transcoded_path e input_file target_fps
      in if exists_file w output_file then (Inr output_file, w)
         else
           (case run_ffmpeg e (transcode_command e input_file target_fps) 0 w of
              (Inl err, w') \<Rightarrow> (Inl err, w')
            | (Inr _, w') \<Rightarrow> (Inr output_file, w')))"

definition quote :: char where
  "quote = CHR 0x27"

text \<open>Line 192: the text of one \<^verbatim>\<open>file.write\<close>.\<close>

definition manifest_entry :: "path \<Rightarrow> string" where
  "manifest_entry video = ''file '' @ [quote] @ as_posix video @ [quote] @ [LF]"

text \<open>
  The manifest is opened for writing (any earlier text is dropped) and receives one
  write per video, in order. The file holds the text as Python wrote it.
\<close>

definition create_concatenation_list :: "path list \<Rightarrow> world \<Rightarrow> path \<times> world" where
  "create_concatenation_list video_files w =
     (let list_file = joinpath TRANSCODED_DIR ''concat_list.txt''
      in (list_file,
          w\<lparr>files := (files w)(list_file \<mapsto> concat (map manifest_entry video_files))\<rparr>))"

text \<open>
  The lines of a text: each ends at a line feed; text after the last line feed is a
  line of its own.
\<close>

fun lines_from :: "string \<Rightarrow> string \<Rightarrow> string list" where
  "lines_from cur [] = (if cur = [] then [] else [cur])"
| "lines_from cur (c # cs) =
     (if c = LF then cur # lines_from [] cs else lines_from (cur @ [c]) cs)"

definition lines_of :: "string \<Rightarrow> string list" where
  "lines_of text = lines_from [] text"

subsection \<open>Video merging: merge_videos_with_music\<close>

text \<open>
  \<^verbatim>\<open>max(0, x)\<close> returns the int 0 unless the float x is larger, and the f-string
  prints an int without a decimal point: the two kinds of number are kept apart.
\<close>

datatype pynum = PyInt int | PyFloat rat

fun num_value :: "pynum \<Rightarrow> rat" where
  "num_value (PyInt i) = of_int i"
| "num_value (PyFloat q) = q"

text \<open>\<^verbatim>\<open>max(a, b)\<close>: the first argument unless the second is strictly larger.\<close>

definition py_max :: "pynum \<Rightarrow> pynum \<Rightarrow> pynum" where
  "py_max a b = (if num_value a < num_value b then b else a)"

fun str_nat :: "nat \<Rightarrow> string" where
  "str_nat n =
     (if n < 10 then [''0123456789'' ! n]
      else str_nat (n div 10) @ [''0123456789'' ! (n mod 10)])"

definition str_int :: "int \<Rightarrow> string" where
  "str_int i = (if i < 0 then ''-'' @ str_nat (nat (- i)) else str_nat (nat i))"

fun str_num :: "env \<Rightarrow> pynum \<Rightarrow> string" where
  "str_num e (PyInt i) = str_int i"
| "str_num e (PyFloat q) = str_float e q"

text \<open>Line 225.\<close>

definition fade_out_start :: "rat \<Rightarrow> pynum" where
  "fade_out_start music_duration =
     py_max (PyInt 0) (PyFloat (music_duration - FADE_OUT_SECONDS))"

text \<open>Lines 227 to 231.\<close>

definition filter_chain :: "env \<Rightarrow> rat \<Rightarrow> string" where
  "filter_chain e music_duration =
     ''[0:v]trim=duration='' @ str_float e music_duration @ '',''
     @ ''fade=t=in:st=0:d='' @ str_float e FADE_IN_SECONDS @ '',''
     @ ''fade=t=out:st='' @ str_num e (fade_out_start music_duration)
     @ '':d='' @ str_float e FADE_OUT_SECONDS @ ''[v]''"

text \<open>\<^verbatim>\<open>str(music_file)\<close> of an optional path.\<close>

definition str_path :: "path option \<Rightarrow> string" where
  "str_path p = (case p of None \<Rightarrow> ''None'' | Some m \<Rightarrow> m)"

text \<open>
  Lines 220 to 258: the command, from \<^verbatim>\<open>has_music\<close> and \<^verbatim>\<open>music_duration\<close>
  as lines 217 and 218 computed them.
\<close>

definition merge_command ::
  "env \<Rightarrow> path \<Rightarrow> path option \<Rightarrow> path \<Rightarrow> bool \<Rightarrow> bool \<Rightarrow> rat \<Rightarrow> string list" where
  "merge_command e concatenation_list music_file output_file use_hardware_encoding
       has_music music_duration =
     [''ffmpeg'', ''-y'', ''-f'', ''concat'', ''-safe'', ''0'', ''-i'', concatenation_list]
     @ (if has_music \<and> 0 < music_duration then
          [''-i'', str_path music_file]
          @ (if use_hardware_encoding then
               [''-filter_complex'', filter_chain e music_duration,
                ''-map'', ''[v]'', ''-map'', ''1:a'',
                ''-t'', str_float e music_duration,
                ''-c:v'', ''h264_nvenc'', ''-c:a'', ''aac'', ''-preset'', ''p5'']
             else
               [''-filter_complex'', filter_chain e music_duration,
                ''-map'', ''[v]'', ''-map'', ''1:a'',
                ''-t'', str_float e music_duration,
                ''-c:v'', ''copy'', ''-c:a'', ''aac''])
        else
          (if has_music then
             [''-i'', str_path music_file, ''-map'', ''0:v'', ''-map'', ''1:a'',
              ''-shortest'']
           else [])
          @ (if use_hardware_encoding then
               [''-c:v'', ''h264_nvenc'', ''-c:a'', ''aac'', ''-preset'', ''p5'']
             else [''-c:v'', ''copy'', ''-c:a'', ''aac'']))
     @ [output_file]"

definition merge_videos_with_music ::
  "env \<Rightarrow> path \<Rightarrow> path option \<Rightarrow> path \<Rightarrow> bool \<Rightarrow> world \<Rightarrow> (error + unit) \<times> world" where
  "merge_videos_with_music e concatenation_list music_file output_file
       use_hardware_encoding w =
     (let has_music = (case music_file of None \<Rightarrow> False | Some m \<Rightarrow> exists_file w m)
      in case (case music_file of
                 None \<Rightarrow> Inr 0
               | Some m \<Rightarrow> if has_music then get_duration e w m else Inr 0) of
           Inl err \<Rightarrow> (Inl err, w)
         | Inr music_duration \<Rightarrow>
             run_ffmpeg e
               (merge_command e concatenation_list music_file output_file
                  use_hardware_encoding has_music music_duration)
               (if has_music then music_duration else 0) w)"

subsection \<open>Main execution\<close>

text \<open>Lines 272 to 277 and line 286: what is kept of a directory listing.\<close>

definition is_video :: "env \<Rightarrow> path \<Rightarrow> bool" where
  "is_video e f \<longleftrightarrow>
     str_lower e (suffix f) \<in> set VIDEO_EXTENSIONS
     \<and> name f \<notin> set [''music.mp3'', ''final_video_fast.mp4'', ''final_video.mp4'']"

text \<open>
  \<^verbatim>\<open>sorted(videos)\<close>: a stable sort; Windows paths compare by their lower-cased text
  (for entries of one directory this is the comparison of their lower-cased names).
\<close>

definition sorted_paths :: "env \<Rightarrow> path list \<Rightarrow> path list" where
  "sorted_paths e ps = sort_key (str_lower e) ps"

definition discover_videos :: "env \<Rightarrow> path list \<Rightarrow> path list" where
  "discover_videos e entries = sorted_paths e (filter (is_video e) entries)"

definition is_music :: "env \<Rightarrow> path \<Rightarrow> bool" where
  "is_music e f \<longleftrightarrow> str_lower e (suffix f) \<in> set AUDIO_EXTENSIONS"

definition discover_music :: "env \<Rightarrow> path list \<Rightarrow> path list" where
  "discover_music e entries = filter (is_music e) entries"

text \<open>
  The loop of lines 309 to 315: a RuntimeError of one transcode is reported and the
  video is left out; any other exception leaves the loop and \<^verbatim>\<open>main\<close>.
\<close>

fun transcode_each ::
  "env \<Rightarrow> rat \<Rightarrow> path list \<Rightarrow> path list \<Rightarrow> world \<Rightarrow> (error + path list) \<times> world" where
  "transcode_each e majority_fps [] transcoded w = (Inr transcoded, w)"
| "transcode_each e majority_fps (video # videos) transcoded w =
     (case get_media_info e w video of
        Inl err \<Rightarrow> (Inl err, w)
      | Inr info \<Rightarrow>
          (let current_fps = fps_or_0 info;
               target = (if current_fps \<noteq> majority_fps then Some majority_fps else None)
           in case transcode_video e video target w of
                (Inr out, w') \<Rightarrow> transcode_each e majority_fps videos (transcoded @ [out]) w'
              | (Inl RuntimeError, w') \<Rightarrow> transcode_each e majority_fps videos transcoded w'
              | (Inl err, w') \<Rightarrow> (Inl err, w')))"

text \<open>Lines 306 to 322: the transcode path.\<close>

definition transcode_path ::
  "env \<Rightarrow> path list \<Rightarrow> rat \<Rightarrow> path \<Rightarrow> world \<Rightarrow> (error + unit) \<times> world" where
  "transcode_path e videos majority_fps music_file w =
     (case transcode_each e majority_fps videos [] w of
        (Inl err, w') \<Rightarrow> (Inl err, w')
      | (Inr transcoded, w') \<Rightarrow>
          if transcoded = [] then (Inr (), w')
          else
            (let (concat_list, w'') = create_concatenation_list transcoded w'
             in merge_videos_with_music e concat_list (Some music_file) OUTPUT_PATH True w''))"

text \<open>Lines 294 to 322: from the compatibility check on.\<close>

definition process_videos ::
  "env \<Rightarrow> path list \<Rightarrow> path \<Rightarrow> world \<Rightarrow> (error + unit) \<times> world" where
  "process_videos e videos music_file w =
     (case find_majority_frame_rate e w videos of
        Inl err \<Rightarrow> (Inl err, w)
      | Inr (is_compatible, majority_fps) \<Rightarrow>
          if is_compatible then
            (let (concat_list, w1) = create_concatenation_list videos w
             in case merge_videos_with_music e concat_list (Some music_file) OUTPUT_PATH
                       False w1 of
                  (Inr _, w2) \<Rightarrow> (Inr (), w2)
                | (Inl RuntimeError, w2) \<Rightarrow>
                    transcode_path e videos majority_fps music_file w2
                | (Inl err, w2) \<Rightarrow> (Inl err, w2))
          else transcode_path e videos majority_fps music_file w)"

definition main :: "env \<Rightarrow> world \<Rightarrow> (error + unit) \<times> world" where
  "main e w =
     (case iterdir e w VIDEO_DIR of
        Inl err \<Rightarrow> (Inl err, w)
      | Inr entries \<Rightarrow>
          (let videos = discover_videos e entries
           in if videos = [] then (Inr (), w)
              else
                (case iterdir e w MUSIC_DIR of
                   Inl err \<Rightarrow> (Inl err, w)
                 | Inr music_entries \<Rightarrow>
                     (case discover_music e music_entries of
                        [] \<Rightarrow> (Inr (), w)
                      | music_file # _ \<Rightarrow> process_videos e videos music_file w))))"

subsection \<open>Vocabulary of the properties\<close>

text \<open>
  Every probe of the list returned (none ended in an uncaught exception), and the rate
  \<^verbatim>\<open>get_media_info(v).get("fps", 0)\<close> a returned probe contributes.
\<close>

definition probes_return :: "env \<Rightarrow> world \<Rightarrow> path list \<Rightarrow> bool" where
  "probes_return e w videos =
     list_all (\<lambda>v. case get_media_info e w v of Inl _ \<Rightarrow> False | Inr _ \<Rightarrow> True) videos"

definition probed_rate :: "env \<Rightarrow> world \<Rightarrow> path \<Rightarrow> rat" where
  "probed_rate e w v = (case get_media_info e w v of Inl _ \<Rightarrow> 0 | Inr info \<Rightarrow> fps_or_0 info)"

text \<open>The histogram of a list of rates, built as the counting loop builds it.\<close>

fun tally :: "rat list \<Rightarrow> (rat \<times> nat) list \<Rightarrow> (rat \<times> nat) list" where
  "tally [] counts = counts"
| "tally (r # rs) counts = tally rs (counts_set counts r (counts_get counts r + 1))"

text \<open>
  Reading a command that was run: a merge starts with the concat demuxer arguments of
  line 220; a hardware merge ends with the encoder arguments of lines 238 and 254
  followed by the output file. A process failed unless it exited with code 0.
\<close>

definition is_merge :: "string list \<Rightarrow> bool" where
  "is_merge command = (take 4 command = [''ffmpeg'', ''-y'', ''-f'', ''concat''])"

definition hardware_merge :: "string list \<Rightarrow> bool" where
  "hardware_merge command \<longleftrightarrow>
     is_merge command
     \<and> take 6 (drop (length command - 7) command)
         = [''-c:v'', ''h264_nvenc'', ''-c:a'', ''aac'', ''-preset'', ''p5'']"

definition failed :: "proc_result \<Rightarrow> bool" where
  "failed ended = (ended \<noteq> Exited 0)"

text \<open>
  Reading the commands of the transcode loop: every event is the transcode of one of the
  videos, with no target rate or with the majority rate; the transcode of a video failed;
  the output of a video is among the transcoded files.
\<close>

definition transcodes_of ::
  "env \<Rightarrow> rat \<Rightarrow> path list \<Rightarrow> (string list \<times> proc_result) list \<Rightarrow> bool" where
  "transcodes_of e majority_fps videos events \<longleftrightarrow>
     (\<forall>ev \<in> set events. \<exists>video \<in> set videos. \<exists>target \<in> set [None, Some majority_fps].
        fst ev = transcode_command e video target)"

definition transcode_failed ::
  "env \<Rightarrow> rat \<Rightarrow> (string list \<times> proc_result) list \<Rightarrow> path \<Rightarrow> bool" where
  "transcode_failed e majority_fps events video \<longleftrightarrow>
     (\<exists>target \<in> set [None, Some majority_fps]. \<exists>ev \<in> set events.
        fst ev = transcode_command e video target \<and> failed (snd ev))"

definition transcoded_among :: "env \<Rightarrow> rat \<Rightarrow> path list \<Rightarrow> path \<Rightarrow> bool" where
  "transcoded_among e majority_fps transcoded video \<longleftrightarrow>
     (\<exists>target \<in> set [None, Some majority_fps]. transcoded_path e video target \<in> set transcoded)"

subsection \<open>A sample environment\<close>

text \<open>
  A concrete outside world on which the definitions run. \<^verbatim>\<open>eval\<close> is given on the
  text ffprobe prints for a frame rate, a fraction of two decimal numbers: the quotient,
  or ZeroDivisionError when the denominator is 0.
\<close>

definition digit_value :: "char \<Rightarrow> nat option" where
  "digit_value c = map_of (zip ''0123456789'' [0, 1, 2, 3, 4, 5, 6, 7, 8, 9]) c"

fun decimal_from :: "nat \<Rightarrow> string \<Rightarrow> nat option" where
  "decimal_from acc [] = Some acc"
| "decimal_from acc (c # cs) =
     (case digit_value c of None \<Rightarrow> None | Some d \<Rightarrow> decimal_from (10 * acc + d) cs)"

definition decimal :: "string \<Rightarrow> nat option" where
  "decimal s = (if s = [] then None else decimal_from 0 s)"

definition eval_fraction :: "string \<Rightarrow> error + rat" where
  "eval_fraction s =
     (let num = takeWhile (\<lambda>c. c \<noteq> CHR ''/'') s; den = drop (length num + 1) s
      in case (decimal num, decimal den) of
           (Some n, Some d) \<Rightarrow>
             if d = 0 then Inl ZeroDivisionError else Inr (of_nat n / of_nat d)
         | _ \<Rightarrow> Inl SyntaxError)"

text \<open>\<^verbatim>\<open>str(x)\<close> for a float that is a whole number of tenths, such as 30.0 or 0.5.\<close>

definition str_tenths :: "rat \<Rightarrow> string" where
  "str_tenths q =
     (let t = \<lfloor>q * 10\<rfloor>
      in (if t < 0 then ''-'' else [])
         @ str_nat (nat \<bar>t\<bar> div 10) @ ''.'' @ str_nat (nat \<bar>t\<bar> mod 10))"

text \<open>What ffprobe prints for a clip with one video stream, and what json.loads makes of it.\<close>

definition probe_text :: "string \<Rightarrow> string" where
  \<open>probe_text rate =
     ''{"streams":[{"codec_type":"video","codec_name":"h264","r_frame_rate":"'' @ rate
     @ ''"}],"format":{"duration":"10.0"}}''\<close>

definition probe_json :: "string \<Rightarrow> json" where
  "probe_json rate =
     JObj [(''streams'', JArr [JObj [(''codec_type'', JStr ''video''),
                                     (''codec_name'', JStr ''h264''),
                                     (''r_frame_rate'', JStr rate)]]),
           (''format'', JObj [(''duration'', JStr ''10.0'')])]"

definition song_text :: string where
  \<open>song_text =
     ''{"streams":[{"codec_type":"audio","codec_name":"mp3"}],"format":{"duration":"30.0"}}''\<close>

definition song_json :: json where
  "song_json =
     JObj [(''streams'', JArr [JObj [(''codec_type'', JStr ''audio''),
                                     (''codec_name'', JStr ''mp3'')]]),
           (''format'', JObj [(''duration'', JStr ''30.0'')])]"

text \<open>
  Clips a and b run at 30 frames per second, c at 25, d reports the rate 0/0, the
  song lasts 30 seconds; any other file makes ffprobe exit with code 1. ffmpeg refuses
  a filter chain together with the copy codec (exit code 1) and otherwise writes its
  output file, the last argument.
\<close>

definition sample_env :: env where
  "sample_env =
     \<lparr>ffprobe = (\<lambda>w command.
        case map_of [(''a.mp4'', probe_text ''30/1''), (''b.mp4'', probe_text ''30/1''),
                     (''c.mp4'', probe_text ''25/1''), (''d.mp4'', probe_text ''0/0''),
                     (''song.mp3'', song_text)] (name (last command)) of
          None \<Rightarrow> Completed 1 []
        | Some stdout \<Rightarrow> Completed 0 stdout),
      ffmpeg = (\<lambda>w command.
        if ''-filter_complex'' \<in> set command \<and> ''copy'' \<in> set command
        then (Exited 1, files w)
        else (Exited 0, (files w)(last command \<mapsto> ''media''))),
      iterdir = (\<lambda>w d.
        if d = VIDEO_DIR then
          Inr [joinpath VIDEO_DIR ''b.mp4'', joinpath VIDEO_DIR ''a.mp4'',
               joinpath VIDEO_DIR ''Music'', joinpath VIDEO_DIR ''final_video_fast.mp4'']
        else if d = MUSIC_DIR then Inr [joinpath MUSIC_DIR ''song.mp3'']
        else Inl OSError),
      json_loads = map_of [(probe_text ''30/1'', probe_json ''30/1''),
                           (probe_text ''25/1'', probe_json ''25/1''),
                           (probe_text ''0/0'', probe_json ''0/0''),
                           (song_text, song_json)],
      py_eval = eval_fraction,
      str_to_float = map_of [(''10.0'', 10), (''30.0'', 30)],
      str_float = str_tenths,
      str_lower = lower\<rparr>"

definition sample_world :: world where
  "sample_world =
     \<lparr>files = map_of [(joinpath VIDEO_DIR ''a.mp4'', ''media''),
                       (joinpath VIDEO_DIR ''b.mp4'', ''media''),
                       (joinpath VIDEO_DIR ''c.mp4'', ''media''),
                       (joinpath VIDEO_DIR ''d.mp4'', ''media''),
                       (joinpath MUSIC_DIR ''song.mp3'', ''media'')],
      ran = []\<rparr>"



section \<open>Properties\<close>

subsection \<open>Media Prober\<close>

text \<open>
  The failures the function catches (ffprobe could not be run, a return code other than
  0, empty output, output that is not JSON) all give the empty record, whose duration
  and frame rate read as 0.
\<close>

lemma caught_failures_give_empty_info:
  assumes "ffprobe e w (probe_command p) = Run_raised
     \<or> (\<exists>returncode stdout. ffprobe e w (probe_command p) = Completed returncode stdout
           \<and> (returncode \<noteq> 0 \<or> stdout = [] \<or> json_loads e stdout = None))"
  shows "get_media_info e w p = Inr empty_info"
    and "duration_or_0 empty_info = 0" and "fps_or_0 empty_info = 0"
  using assms
  by (auto simp: get_media_info_def duration_or_0_def fps_or_0_def empty_info_def)

text \<open>
  Claim C1: for every file path get_media_info returns a record and never raises; any
  failure gives the empty record. The code does not keep this: line 122 evaluates the
  frame-rate text outside every try block. For clip d of the sample environment ffprobe
  exits with code 0 and reports a video stream with \<^verbatim>\<open>r_frame_rate\<close> 0/0; the
  evaluation divides by zero and get_media_info raises ZeroDivisionError instead of
  returning a record.
\<close>

theorem get_media_info_raises_on_zero_denominator:
  "ffprobe sample_env sample_world (probe_command (joinpath VIDEO_DIR ''d.mp4''))
     = Completed 0 (probe_text ''0/0'')
   \<and> json_loads sample_env (probe_text ''0/0'') = Some (probe_json ''0/0'')
   \<and> py_eval sample_env ''0/0'' = Inl ZeroDivisionError
   \<and> get_media_info sample_env sample_world (joinpath VIDEO_DIR ''d.mp4'') = Inl ZeroDivisionError"
  by code_simp

theorem get_media_info_raises_on_zero_denominator_witness:
  "\<not> ((0 :: int) \<noteq> 0 \<or> probe_text ''0/0'' = [])
   \<and> (\<forall>info. get_media_info sample_env sample_world (joinpath VIDEO_DIR ''d.mp4'')
                \<noteq> Inr info)"
proof -
  have "probe_text ''0/0'' \<noteq> []" by (simp add: probe_text_def)
  moreover have "get_media_info sample_env sample_world (joinpath VIDEO_DIR ''d.mp4'')
                   \<noteq> Inr info" for info
    using get_media_info_raises_on_zero_denominator by simp
  ultimately show ?thesis by simp
qed

subsection \<open>Compatibility Analyzer\<close>

lemma count_frame_rates_tally:
  "probes_return e w videos \<Longrightarrow>
   count_frame_rates e w videos counts = Inr (tally (map (probed_rate e w) videos) counts)"
  by (induction videos arbitrary: counts)
     (auto simp: probes_return_def probed_rate_def split: sum.splits)

lemma keys_counts_set:
  "set (map fst (counts_set counts k v)) = insert k (set (map fst counts))"
  by (induction counts k v rule: counts_set.induct) (simp_all add: insert_commute)

lemma distinct_counts_set:
  "distinct (map fst counts) \<Longrightarrow> distinct (map fst (counts_set counts k v))"
  by (induction counts) (auto simp: keys_counts_set simp del: set_map)

lemma counts_get_counts_set:
  "counts_get (counts_set counts k v) k' = (if k' = k then v else counts_get counts k')"
  by (induction counts) auto

lemma keys_tally: "set (map fst (tally rs counts)) = set (map fst counts) \<union> set rs"
  by (induction rs arbitrary: counts) (auto simp: keys_counts_set simp del: set_map)

lemma distinct_tally:
  "distinct (map fst counts) \<Longrightarrow> distinct (map fst (tally rs counts))"
  by (induction rs arbitrary: counts) (auto simp: distinct_counts_set)

lemma counts_get_tally:
  "counts_get (tally rs counts) k = counts_get counts k + count_list rs k"
  by (induction rs arbitrary: counts) (auto simp: counts_get_counts_set)

lemma counts_get_member:
  "distinct (map fst counts) \<Longrightarrow> (k, n) \<in> set counts \<Longrightarrow> counts_get counts k = n"
  by (induction counts) (auto simp: rev_image_eqI)

lemma max_from_maximal:
  "\<exists>n. (max_from best rest, n) \<in> set (best # rest) \<and> (\<forall>kv \<in> set (best # rest). snd kv \<le> n)"
proof (induction rest arbitrary: best)
  case Nil
  show ?case by (cases best) auto
next
  case (Cons kv rest)
  show ?case
  proof (cases "snd best < snd kv")
    case True
    from Cons.IH [of kv] obtain n where
      "(max_from kv rest, n) \<in> set (kv # rest)" "\<forall>x \<in> set (kv # rest). snd x \<le> n"
      by blast
    with True show ?thesis by (intro exI [of _ n]) auto
  next
    case False
    from Cons.IH [of best] obtain n where
      "(max_from best rest, n) \<in> set (best # rest)" "\<forall>x \<in> set (best # rest). snd x \<le> n"
      by blast
    with False show ?thesis by (intro exI [of _ n]) auto
  qed
qed

lemma length_tally: "length (tally rs []) = card (set rs)"
proof -
  have "length (tally rs []) = length (map fst (tally rs []))" by simp
  also have "\<dots> = card (set (map fst (tally rs [])))"
    using distinct_card [OF distinct_tally [of "[]" rs]] by simp
  also have "set (map fst (tally rs [])) = set rs"
    using keys_tally [of rs "[]"] by simp
  finally show ?thesis .
qed

lemma majority_of_tally:
  assumes "rs \<noteq> []"
  shows "\<exists>m. max_by_count (tally rs []) = Inr m \<and> m \<in> set rs
           \<and> (\<forall>r \<in> set rs. count_list rs r \<le> count_list rs m)"
proof -
  have keys: "fst ` set (tally rs []) = set rs"
    using keys_tally [of rs "[]"] by simp
  have dist: "distinct (map fst (tally rs []))"
    using distinct_tally [of "[]" rs] by simp
  have cnt: "counts_get (tally rs []) k = count_list rs k" for k
    using counts_get_tally [of rs "[]" k] by simp
  from assms keys have "tally rs [] \<noteq> []" by auto
  then obtain kv rest where split: "tally rs [] = kv # rest"
    by (cases "tally rs []") auto
  from max_from_maximal [of kv rest] obtain n where
    n: "(max_from kv rest, n) \<in> set (tally rs [])"
       "\<forall>x \<in> set (tally rs []). snd x \<le> n"
    unfolding split by blast
  let ?m = "max_from kv rest"
  have m_in: "?m \<in> set rs" using n(1) keys by (metis fst_conv image_eqI)
  have m_cnt: "count_list rs ?m = n" using counts_get_member [OF dist n(1)] cnt by simp
  have "count_list rs r \<le> n" if "r \<in> set rs" for r
  proof -
    from that keys obtain c where c: "(r, c) \<in> set (tally rs [])" by (metis fst_conv imageE surj_pair)
    have "count_list rs r = c" using counts_get_member [OF dist c] cnt by simp
    with n(2) c show ?thesis by force
  qed
  with m_in m_cnt show ?thesis by (simp add: split)
qed

lemma find_majority_tally:
  assumes "2 \<le> length video_files" and "probes_return e w video_files"
  shows "\<exists>majority.
     find_majority_frame_rate e w video_files
       = Inr (card (set (map (probed_rate e w) video_files)) = 1, majority)
     \<and> max_by_count (tally (map (probed_rate e w) video_files) []) = Inr majority"
proof -
  let ?rs = "map (probed_rate e w) video_files"
  from assms(1) have ne: "?rs \<noteq> []" by auto
  from majority_of_tally [OF ne] obtain m where m: "max_by_count (tally ?rs []) = Inr m"
    by blast
  have "tally ?rs [] \<noteq> []" using m by (cases "tally ?rs []") auto
  with assms m show ?thesis
    by (simp add: find_majority_frame_rate_def count_frame_rates_tally length_tally
          del: set_map)
qed

text \<open>
  When every probe of the list returns a record, the analysis does what the
  specification says. For at least 2 files it answers compatible exactly when one
  distinct rate was probed, which is then the majority; a probe that degraded to the empty
  record contributes the rate 0.
\<close>

lemma compatible_iff_one_distinct_rate:
  assumes "2 \<le> length video_files" and "probes_return e w video_files"
  shows "\<exists>is_compatible majority.
     find_majority_frame_rate e w video_files = Inr (is_compatible, majority)
     \<and> (is_compatible \<longleftrightarrow> card (set (map (probed_rate e w) video_files)) = 1)
     \<and> (card (set (map (probed_rate e w) video_files)) = 1
          \<longrightarrow> set (map (probed_rate e w) video_files) = {majority})
     \<and> (\<forall>video \<in> set video_files.
           get_media_info e w video = Inr empty_info \<longrightarrow> probed_rate e w video = 0)"
proof -
  let ?rs = "map (probed_rate e w) video_files"
  from assms(1) have ne: "?rs \<noteq> []" by auto
  from find_majority_tally [OF assms] obtain m where
    res: "find_majority_frame_rate e w video_files = Inr (card (set ?rs) = 1, m)"
    and mx: "max_by_count (tally ?rs []) = Inr m"
    by blast
  from majority_of_tally [OF ne] mx have m_in: "m \<in> set ?rs" by auto
  have one: "set ?rs = {m}" if "card (set ?rs) = 1"
  proof -
    from that obtain x where "set ?rs = {x}" by (auto simp: card_1_singleton_iff)
    with m_in show ?thesis by auto
  qed
  have zero: "probed_rate e w video = 0" if "get_media_info e w video = Inr empty_info"
    for video
    using that by (simp add: probed_rate_def fps_or_0_def empty_info_def)
  from res one zero show ?thesis by blast
qed

lemma compatible_iff_one_distinct_rate_example:
  "find_majority_frame_rate sample_env sample_world
     [joinpath VIDEO_DIR ''a.mp4'', joinpath VIDEO_DIR ''b.mp4''] = Inr (True, 30)
   \<and> probed_rate sample_env sample_world (joinpath VIDEO_DIR ''missing.mp4'') = 0
   \<and> (\<exists>majority. find_majority_frame_rate sample_env sample_world
         [joinpath VIDEO_DIR ''a.mp4'', joinpath VIDEO_DIR ''missing.mp4''] = Inr (False, majority))"
proof -
  let ?vs = "[joinpath VIDEO_DIR ''a.mp4'', joinpath VIDEO_DIR ''b.mp4'']"
  let ?us = "[joinpath VIDEO_DIR ''a.mp4'', joinpath VIDEO_DIR ''missing.mp4'']"
  have h1: "2 \<le> length ?vs" by simp
  have h2: "probes_return sample_env sample_world ?vs" by code_simp
  have rates: "map (probed_rate sample_env sample_world) ?vs = [30, 30]" by code_simp
  from compatible_iff_one_distinct_rate [OF h1 h2, unfolded rates] obtain c m where
    "find_majority_frame_rate sample_env sample_world ?vs = Inr (c, m)"
    and "c \<longleftrightarrow> card (set [30, 30 :: rat]) = 1"
    and "card (set [30, 30 :: rat]) = 1 \<longrightarrow> set [30, 30 :: rat] = {m}"
    by blast
  then have same: "find_majority_frame_rate sample_env sample_world ?vs = Inr (True, 30)"
    by simp
  have g1: "2 \<le> length ?us" by simp
  have g2: "probes_return sample_env sample_world ?us" by code_simp
  have degraded: "get_media_info sample_env sample_world (joinpath VIDEO_DIR ''missing.mp4'') = Inr empty_info"
    by code_simp
  have mixed: "map (probed_rate sample_env sample_world) ?us = [30, 0]" by code_simp
  from compatible_iff_one_distinct_rate [OF g1 g2, unfolded mixed] obtain c' m' where
    res: "find_majority_frame_rate sample_env sample_world ?us = Inr (c', m')"
    and iff: "c' \<longleftrightarrow> card (set [30, 0 :: rat]) = 1"
    and zero: "\<forall>video \<in> set ?us. get_media_info sample_env sample_world video = Inr empty_info
                 \<longrightarrow> probed_rate sample_env sample_world video = 0"
    by blast
  from iff have "\<not> c'" by simp
  with res have "\<exists>majority. find_majority_frame_rate sample_env sample_world ?us
                   = Inr (False, majority)"
    by auto
  moreover from zero degraded
  have "probed_rate sample_env sample_world (joinpath VIDEO_DIR ''missing.mp4'') = 0" by simp
  ultimately show ?thesis using same by blast
qed

text \<open>
  With fewer than 2 files whose probes return, the answer is compatible, with majority 0
  for the empty list and the file's probed rate for a single file.
\<close>

lemma fewer_than_two_is_compatible:
  assumes "length video_files < 2" and "probes_return e w video_files"
  shows "find_majority_frame_rate e w video_files
           = Inr (True, case video_files of [] \<Rightarrow> 0 | video # _ \<Rightarrow> probed_rate e w video)"
  using assms
  by (cases video_files)
     (auto simp: find_majority_frame_rate_def probes_return_def probed_rate_def
           split: sum.splits)

lemma fewer_than_two_is_compatible_example:
  "find_majority_frame_rate sample_env sample_world [] = Inr (True, 0)
   \<and> find_majority_frame_rate sample_env sample_world [joinpath VIDEO_DIR ''c.mp4''] = Inr (True, 25)"
proof -
  have e1: "length ([] :: path list) < 2" by simp
  have e2: "probes_return sample_env sample_world []" by (simp add: probes_return_def)
  have h1: "length [joinpath VIDEO_DIR ''c.mp4''] < 2" by simp
  have h2: "probes_return sample_env sample_world [joinpath VIDEO_DIR ''c.mp4'']" by code_simp
  have rate: "probed_rate sample_env sample_world (joinpath VIDEO_DIR ''c.mp4'') = 25" by code_simp
  from fewer_than_two_is_compatible [OF e1 e2] fewer_than_two_is_compatible [OF h1 h2] rate
  show ?thesis by simp
qed

text \<open>
  With at least 2 files whose probes return and a rate that occurs strictly more often
  than every other, that rate is the majority.
\<close>

lemma majority_is_strictly_most_frequent:
  assumes "2 \<le> length video_files" and "probes_return e w video_files"
    and "rates = map (probed_rate e w) video_files"
    and "2 \<le> card (set rates)"
    and "r \<in> set rates"
    and "\<forall>r' \<in> set rates. r' \<noteq> r \<longrightarrow> count_list rates r' < count_list rates r"
  shows "find_majority_frame_rate e w video_files = Inr (False, r)"
proof -
  from assms(1,3) have ne: "rates \<noteq> []" by auto
  from find_majority_tally [OF assms(1,2)] assms(3) obtain m where
    res: "find_majority_frame_rate e w video_files = Inr (card (set rates) = 1, m)"
    and mx: "max_by_count (tally rates []) = Inr m"
    by auto
  from majority_of_tally [OF ne] mx have
    m_in: "m \<in> set rates" and m_max: "\<forall>x \<in> set rates. count_list rates x \<le> count_list rates m"
    by auto
  have "m = r"
  proof (rule ccontr)
    assume "m \<noteq> r"
    with assms(6) m_in have "count_list rates m < count_list rates r" by blast
    moreover from m_max assms(5) have "count_list rates r \<le> count_list rates m" by blast
    ultimately show False by simp
  qed
  with res assms(4) show ?thesis by simp
qed

lemma majority_is_strictly_most_frequent_example:
  "find_majority_frame_rate sample_env sample_world
     [joinpath VIDEO_DIR ''a.mp4'', joinpath VIDEO_DIR ''b.mp4'', joinpath VIDEO_DIR ''c.mp4''] = Inr (False, 30)"
proof -
  let ?vs = "[joinpath VIDEO_DIR ''a.mp4'', joinpath VIDEO_DIR ''b.mp4'', joinpath VIDEO_DIR ''c.mp4'']"
  have h1: "2 \<le> length ?vs" by simp
  have h2: "probes_return sample_env sample_world ?vs" by code_simp
  have h3: "[30, 30, 25] = map (probed_rate sample_env sample_world) ?vs" by code_simp
  have h4: "2 \<le> card (set [30, 30, 25 :: rat])" by simp
  have h5: "(30 :: rat) \<in> set [30, 30, 25]" by simp
  have h6: "\<forall>r' \<in> set [30, 30, 25 :: rat].
              r' \<noteq> 30 \<longrightarrow> count_list [30, 30, 25] r' < count_list [30, 30, 25] 30"
    by simp
  from majority_is_strictly_most_frequent [OF h1 h2 h3 h4 h5 h6] show ?thesis .
qed

text \<open>
  A probe that ends in an uncaught exception (line 122, the defect of the Media Prober)
  ends the analysis with that exception, on each of its paths. The three claims below are
  stated for every list, and the specification has a failed probe contribute the rate 0.
\<close>

text \<open>
  Claim C2: for every list of at least 2 video files find_majority_frame_rate returns
  isCompatible = true if and only if exactly one distinct frame rate appears among the
  probed rates, probe failures contributing rate 0 like any other value. The code does
  not keep this: for clips a (30 frames per second) and d (reported rate 0/0) the failed
  probe does not contribute 0, where the answer would be incompatible; the call raises
  ZeroDivisionError.
\<close>

theorem compatibility_check_raises_on_zero_denominator:
  "find_majority_frame_rate sample_env sample_world
     [joinpath VIDEO_DIR ''a.mp4'', joinpath VIDEO_DIR ''d.mp4''] = Inl ZeroDivisionError"
  by code_simp

theorem compatibility_check_raises_on_zero_denominator_witness:
  "length [joinpath VIDEO_DIR ''a.mp4'', joinpath VIDEO_DIR ''d.mp4''] = 2
   \<and> (\<forall>result. find_majority_frame_rate sample_env sample_world
         [joinpath VIDEO_DIR ''a.mp4'', joinpath VIDEO_DIR ''d.mp4''] \<noteq> Inr result)"
  using compatibility_check_raises_on_zero_denominator by simp

text \<open>
  Claim C3: for every list of fewer than 2 video files find_majority_frame_rate returns
  isCompatible = true, with the single file's probed frame rate as majority, or 0 for the
  empty list. The code does not keep this: for the one-element list of clip d, line 146
  probes the clip and the call raises ZeroDivisionError instead of returning.
\<close>

theorem single_video_check_raises_on_zero_denominator:
  "find_majority_frame_rate sample_env sample_world [joinpath VIDEO_DIR ''d.mp4''] = Inl ZeroDivisionError"
  by code_simp

theorem single_video_check_raises_on_zero_denominator_witness:
  "length [joinpath VIDEO_DIR ''d.mp4''] = 1
   \<and> (\<forall>result. find_majority_frame_rate sample_env sample_world
         [joinpath VIDEO_DIR ''d.mp4''] \<noteq> Inr result)"
  using single_video_check_raises_on_zero_denominator by simp

text \<open>
  Claim C4: for every list of at least 2 video files whose probed frame rates contain at
  least 2 distinct values, one of them strictly more frequent than every other, the
  returned majority is that value. The code does not keep this: for clips a, b (30 frames
  per second), c (25) and d (reported rate 0/0, a failed probe that is to count as 0) the
  rate 30 is strictly the most frequent, and the call raises ZeroDivisionError instead of
  returning it.
\<close>

theorem majority_check_raises_on_zero_denominator:
  "find_majority_frame_rate sample_env sample_world
     [joinpath VIDEO_DIR ''a.mp4'', joinpath VIDEO_DIR ''b.mp4'', joinpath VIDEO_DIR ''c.mp4'', joinpath VIDEO_DIR ''d.mp4''] = Inl ZeroDivisionError"
  by code_simp

theorem majority_check_raises_on_zero_denominator_witness:
  "length [joinpath VIDEO_DIR ''a.mp4'', joinpath VIDEO_DIR ''b.mp4'', joinpath VIDEO_DIR ''c.mp4'', joinpath VIDEO_DIR ''d.mp4''] = 4
   \<and> (\<forall>result. find_majority_frame_rate sample_env sample_world
         [joinpath VIDEO_DIR ''a.mp4'', joinpath VIDEO_DIR ''b.mp4'', joinpath VIDEO_DIR ''c.mp4'', joinpath VIDEO_DIR ''d.mp4''] \<noteq> Inr result)"
  using majority_check_raises_on_zero_denominator by simp

subsection \<open>Merger\<close>

lemma merge_runs_command:
  assumes "exists_file w music" and "get_duration e w music = Inr d"
  shows "ran (snd (merge_videos_with_music e cl (Some music) out hw w))
           = ran w @ [(merge_command e cl (Some music) out hw True d,
                       fst (ffmpeg e w (merge_command e cl (Some music) out hw True d)))]"
  using assms
  by (simp add: merge_videos_with_music_def run_ffmpeg_def Let_def
           split: prod.splits proc_result.splits)

lemma fade_out_start_value:
  "num_value (fade_out_start d) = max 0 (d - FADE_OUT_SECONDS)"
  by (simp add: fade_out_start_def py_max_def max_def)

text \<open>
  Claim C5: when the Merger builds the command for a present music file of positive
  duration, the fade-out start placed in the filter chain is
  max(0, music_duration - FADE_OUT_SECONDS) and never negative: 29 for a duration of 30
  seconds, and 0 for a duration of half a second.
\<close>

theorem fade_out_start_clamped:
  assumes "exists_file w music_file" and "get_duration e w music_file = Inr music_duration"
    and "0 < music_duration"
  shows "\<exists>command ended.
     ran (snd (merge_videos_with_music e concatenation_list (Some music_file) output_file
                 use_hardware_encoding w)) = ran w @ [(command, ended)]
     \<and> command ! 10 = ''-filter_complex''
     \<and> command ! 11 =
         ''[0:v]trim=duration='' @ str_float e music_duration @ '',''
         @ ''fade=t=in:st=0:d='' @ str_float e FADE_IN_SECONDS @ '',''
         @ ''fade=t=out:st='' @ str_num e (fade_out_start music_duration)
         @ '':d='' @ str_float e FADE_OUT_SECONDS @ ''[v]''
     \<and> num_value (fade_out_start music_duration) = max 0 (music_duration - FADE_OUT_SECONDS)
     \<and> 0 \<le> num_value (fade_out_start music_duration)
     \<and> num_value (fade_out_start 30) = 29
     \<and> num_value (fade_out_start (1 / 2)) = 0"
proof -
  let ?c = "merge_command e concatenation_list (Some music_file) output_file
              use_hardware_encoding True music_duration"
  have "?c ! 10 = ''-filter_complex''" and "?c ! 11 = filter_chain e music_duration"
    using assms(3) by (simp_all add: merge_command_def)
  moreover have "0 \<le> num_value (fade_out_start music_duration)"
    by (simp add: fade_out_start_value)
  moreover have "num_value (fade_out_start 30) = 29"
    and "num_value (fade_out_start (1 / 2)) = 0"
    by (simp_all add: fade_out_start_value FADE_OUT_SECONDS_def)
  ultimately show ?thesis
    using merge_runs_command [OF assms(1,2)] fade_out_start_value
    by (simp add: filter_chain_def)
qed

theorem fade_out_start_clamped_witness:
  "\<exists>command ended.
     ran (snd (merge_videos_with_music sample_env (joinpath TRANSCODED_DIR ''concat_list.txt'')
                 (Some (joinpath MUSIC_DIR ''song.mp3'')) OUTPUT_PATH True sample_world))
       = [(command, ended)]
     \<and> command ! 11
         = ''[0:v]trim=duration=30.0,fade=t=in:st=0:d=0.5,fade=t=out:st=29.0:d=1.0[v]''"
proof -
  have h1: "exists_file sample_world (joinpath MUSIC_DIR ''song.mp3'')" by code_simp
  have h2: "get_duration sample_env sample_world (joinpath MUSIC_DIR ''song.mp3'') = Inr 30"
    by code_simp
  have h3: "(0 :: rat) < 30" by simp
  have chain: "''[0:v]trim=duration='' @ str_float sample_env 30 @ '',''
         @ ''fade=t=in:st=0:d='' @ str_float sample_env FADE_IN_SECONDS @ '',''
         @ ''fade=t=out:st='' @ str_num sample_env (fade_out_start 30)
         @ '':d='' @ str_float sample_env FADE_OUT_SECONDS @ ''[v]''
       = ''[0:v]trim=duration=30.0,fade=t=in:st=0:d=0.5,fade=t=out:st=29.0:d=1.0[v]''"
    by code_simp
  have start: "ran sample_world = []" by (simp add: sample_world_def)
  from fade_out_start_clamped [OF h1 h2 h3, of "joinpath TRANSCODED_DIR ''concat_list.txt''" OUTPUT_PATH True]
  show ?thesis unfolding chain start by auto
qed

text \<open>
  Claim C9: when the Merger is given a present music file of positive duration and the
  hardware-encoding flag is false, the command it runs applies the trim and fade filter
  chain to the video stream (the chain trims stream 0:v to the music's duration, fades
  in, fades out and is mapped as [v]) and at the same time selects \<^verbatim>\<open>copy\<close> as
  the video codec.
\<close>

theorem filter_chain_with_copy_codec:
  assumes "exists_file w music_file" and "get_duration e w music_file = Inr music_duration"
    and "0 < music_duration"
  shows "\<exists>ended.
     ran (snd (merge_videos_with_music e concatenation_list (Some music_file) output_file
                 False w))
     = ran w @
       [([''ffmpeg'', ''-y'', ''-f'', ''concat'', ''-safe'', ''0'', ''-i'', concatenation_list,
          ''-i'', music_file,
          ''-filter_complex'',
          ''[0:v]trim=duration='' @ str_float e music_duration @ '',''
          @ ''fade=t=in:st=0:d='' @ str_float e FADE_IN_SECONDS @ '',''
          @ ''fade=t=out:st='' @ str_num e (fade_out_start music_duration)
          @ '':d='' @ str_float e FADE_OUT_SECONDS @ ''[v]'',
          ''-map'', ''[v]'', ''-map'', ''1:a'', ''-t'', str_float e music_duration,
          ''-c:v'', ''copy'', ''-c:a'', ''aac'', output_file], ended)]"
  using merge_runs_command [OF assms(1,2), of concatenation_list output_file False] assms(3)
  by (simp add: merge_command_def str_path_def filter_chain_def)

theorem filter_chain_with_copy_codec_witness:
  "\<exists>ended.
     ran (snd (merge_videos_with_music sample_env (joinpath TRANSCODED_DIR ''concat_list.txt'')
                 (Some (joinpath MUSIC_DIR ''song.mp3'')) OUTPUT_PATH False sample_world))
     = [([''ffmpeg'', ''-y'', ''-f'', ''concat'', ''-safe'', ''0'',
          ''-i'', joinpath TRANSCODED_DIR ''concat_list.txt'',
          ''-i'', joinpath MUSIC_DIR ''song.mp3'',
          ''-filter_complex'',
          ''[0:v]trim=duration=30.0,fade=t=in:st=0:d=0.5,fade=t=out:st=29.0:d=1.0[v]'',
          ''-map'', ''[v]'', ''-map'', ''1:a'', ''-t'', ''30.0'',
          ''-c:v'', ''copy'', ''-c:a'', ''aac'', OUTPUT_PATH], ended)]"
proof -
  have h1: "exists_file sample_world (joinpath MUSIC_DIR ''song.mp3'')" by code_simp
  have h2: "get_duration sample_env sample_world (joinpath MUSIC_DIR ''song.mp3'') = Inr 30"
    by code_simp
  have h3: "(0 :: rat) < 30" by simp
  have seconds: "str_float sample_env 30 = ''30.0''" by code_simp
  have fade_in: "str_float sample_env FADE_IN_SECONDS = ''0.5''" by code_simp
  have fade_out: "str_float sample_env FADE_OUT_SECONDS = ''1.0''" by code_simp
  have fade_start: "str_num sample_env (fade_out_start 30) = ''29.0''" by code_simp
  have start: "ran sample_world = []" by (simp add: sample_world_def)
  from filter_chain_with_copy_codec [OF h1 h2 h3,
      of "joinpath TRANSCODED_DIR ''concat_list.txt''" OUTPUT_PATH]
  show ?thesis unfolding seconds fade_in fade_out fade_start start by simp
qed

subsection \<open>Transcoder\<close>







subsection \<open>Concatenation List Builder\<close>

lemma lines_from_entry:
  "LF \<notin> set s \<Longrightarrow> lines_from cur (s @ LF # rest) = (cur @ s) # lines_from [] rest"
  by (induction s arbitrary: cur) auto

lemma as_posix_no_sep: "sep \<notin> set (as_posix p)"
  by (auto simp: as_posix_def sep_def)

lemma as_posix_no_LF: "LF \<notin> set p \<Longrightarrow> LF \<notin> set (as_posix p)"
  by (auto simp: as_posix_def LF_def)

lemma lines_of_manifest:
  "\<forall>v \<in> set video_files. LF \<notin> set v \<Longrightarrow>
   lines_from [] (concat (map manifest_entry video_files))
     = map (\<lambda>v. ''file '' @ [quote] @ as_posix v @ [quote]) video_files"
proof (induction video_files)
  case Nil
  show ?case by simp
next
  case (Cons v vs)
  let ?line = "''file '' @ [quote] @ as_posix v @ [quote]"
  let ?rest = "concat (map manifest_entry vs)"
  have no_LF: "LF \<notin> set ?line"
    using Cons.prems by (simp add: as_posix_no_LF) (simp add: LF_def quote_def)
  have "concat (map manifest_entry (v # vs)) = ?line @ LF # ?rest"
    by (simp add: manifest_entry_def)
  then have "lines_from [] (concat (map manifest_entry (v # vs))) = ?line # lines_from [] ?rest"
    using lines_from_entry [OF no_LF, of "[]" ?rest] by simp
  with Cons show ?case by simp
qed

text \<open>
  Claim C7: for every ordered list of video paths (none containing a line feed, which no
  file name on Windows can), create_concatenation_list writes a manifest with exactly
  one line per input path, in the order of the input, each line of the form
  \<^verbatim>\<open>file '<path>'\<close> with the path rendered with forward slashes; for the paths
  a.mp4, b.mp4, c.mp4 the manifest has exactly those 3 lines in that order.
\<close>

theorem manifest_one_line_per_video:
  assumes "\<forall>video \<in> set video_files. LF \<notin> set video"
  shows "\<exists>text.
     files (snd (create_concatenation_list video_files w))
       (fst (create_concatenation_list video_files w)) = Some text
     \<and> lines_of text = map (\<lambda>video. ''file '' @ [quote] @ as_posix video @ [quote]) video_files
     \<and> length (lines_of text) = length video_files
     \<and> (\<forall>video \<in> set video_files. sep \<notin> set (as_posix video))"
  using lines_of_manifest [OF assms]
  by (simp add: create_concatenation_list_def lines_of_def as_posix_no_sep Let_def)

theorem manifest_one_line_per_video_witness:
  "LF \<notin> set ''a.mp4'' \<and> LF \<notin> set ''b.mp4'' \<and> LF \<notin> set ''c.mp4''
   \<and> (\<exists>text.
     files (snd (create_concatenation_list [''a.mp4'', ''b.mp4'', ''c.mp4''] sample_world))
       (fst (create_concatenation_list [''a.mp4'', ''b.mp4'', ''c.mp4''] sample_world)) = Some text
     \<and> lines_of text = [''file '' @ [quote] @ ''a.mp4'' @ [quote],
                         ''file '' @ [quote] @ ''b.mp4'' @ [quote],
                         ''file '' @ [quote] @ ''c.mp4'' @ [quote]])"
proof -
  have h: "\<forall>video \<in> set [''a.mp4'', ''b.mp4'', ''c.mp4'']. LF \<notin> set video"
    by (simp add: LF_def)
  from manifest_one_line_per_video [OF h, of sample_world] obtain manifest where
    written: "files (snd (create_concatenation_list [''a.mp4'', ''b.mp4'', ''c.mp4''] sample_world))
       (fst (create_concatenation_list [''a.mp4'', ''b.mp4'', ''c.mp4''] sample_world)) = Some manifest"
    and lines: "lines_of manifest
       = map (\<lambda>video. ''file '' @ [quote] @ as_posix video @ [quote]) [''a.mp4'', ''b.mp4'', ''c.mp4'']"
    by blast
  from lines have "lines_of manifest = [''file '' @ [quote] @ ''a.mp4'' @ [quote],
                         ''file '' @ [quote] @ ''b.mp4'' @ [quote],
                         ''file '' @ [quote] @ ''c.mp4'' @ [quote]]"
    by (simp add: as_posix_def sep_def)
  with written h show ?thesis by auto
qed

subsection \<open>Orchestrator\<close>

lemma run_ffmpeg_result:
  assumes "run_ffmpeg e command d w = (r, w')"
  shows "ran w' = ran w @ [(command, fst (ffmpeg e w command))]
     \<and> r = (if failed (fst (ffmpeg e w command)) then Inl RuntimeError else Inr ())"
proof -
  obtain ended files' where tool: "ffmpeg e w command = (ended, files')"
    by (cases "ffmpeg e w command")
  show ?thesis
  proof (cases ended)
    case Popen_raised
    with assms tool show ?thesis by (auto simp: run_ffmpeg_def failed_def)
  next
    case (Exited returncode)
    with assms tool show ?thesis
      by (cases "returncode = 0") (auto simp: run_ffmpeg_def failed_def)
  qed
qed

lemma transcode_video_cases:
  assumes "transcode_video e i t w = (r, w')"
  shows "(r = Inr (transcoded_path e i t) \<and> w' = w)
     \<or> (\<exists>ended. ran w' = ran w @ [(transcode_command e i t, ended)]
           \<and> r = (if failed ended then Inl RuntimeError else Inr (transcoded_path e i t)))"
proof (cases "exists_file w (transcoded_path e i t)")
  case True
  with assms show ?thesis by (simp add: transcode_video_def)
next
  case False
  obtain r0 w0 where run: "run_ffmpeg e (transcode_command e i t) 0 w = (r0, w0)"
    by (cases "run_ffmpeg e (transcode_command e i t) 0 w")
  let ?ended = "fst (ffmpeg e w (transcode_command e i t))"
  from run_ffmpeg_result [OF run] have
    tr: "ran w0 = ran w @ [(transcode_command e i t, ?ended)]"
    and r0: "r0 = (if failed ?ended then Inl RuntimeError else Inr ())"
    by simp_all
  from False assms run r0 have "w' = w0"
    and "r = (if failed ?ended then Inl RuntimeError else Inr (transcoded_path e i t))"
    by (auto simp: transcode_video_def split: if_splits)
  with tr have "ran w' = ran w @ [(transcode_command e i t, ?ended)]
           \<and> r = (if failed ?ended then Inl RuntimeError else Inr (transcoded_path e i t))"
    by simp
  then show ?thesis by blast
qed

lemma transcodes_of_Nil: "transcodes_of e maj vs []"
  by (simp add: transcodes_of_def)

lemma transcodes_of_append:
  "transcodes_of e maj vs xs \<Longrightarrow> transcodes_of e maj vs ys \<Longrightarrow> transcodes_of e maj vs (xs @ ys)"
  by (auto simp: transcodes_of_def)

lemma transcodes_of_Cons:
  "transcodes_of e maj vs ts \<Longrightarrow> transcodes_of e maj (v # vs) ts"
  by (fastforce simp: transcodes_of_def)

lemma transcodes_of_single:
  "t \<in> set [None, Some maj] \<Longrightarrow> transcodes_of e maj (v # vs) [(transcode_command e v t, ended)]"
  by (auto simp: transcodes_of_def)

lemma transcode_failed_append:
  "transcode_failed e maj xs v \<or> transcode_failed e maj ys v \<Longrightarrow>
   transcode_failed e maj (xs @ ys) v"
  by (auto simp: transcode_failed_def)

lemma transcode_failed_single:
  "t \<in> set [None, Some maj] \<Longrightarrow> failed ended \<Longrightarrow>
   transcode_failed e maj [(transcode_command e v t, ended)] v"
  by (auto simp: transcode_failed_def)

lemma transcoded_among_Cons:
  "transcoded_among e maj ps v \<Longrightarrow> transcoded_among e maj (p # ps) v"
  by (auto simp: transcoded_among_def)

lemma transcoded_among_head:
  "t \<in> set [None, Some maj] \<Longrightarrow> transcoded_among e maj (transcoded_path e v t # ps) v"
  by (auto simp: transcoded_among_def)

lemma transcode_command_not_merge: "\<not> is_merge (transcode_command e i t)"
  by (simp add: is_merge_def transcode_command_def)

lemma ex_conj_insert:
  "\<exists>x. P x \<and> R x \<Longrightarrow> (\<And>x. P x \<Longrightarrow> Q x) \<Longrightarrow> \<exists>x. P x \<and> Q x \<and> R x"
  by blast

lemma transcodes_are_not_merges:
  "transcodes_of e maj vs ts \<Longrightarrow> \<forall>ev \<in> set ts. \<not> is_merge (fst ev)"
  by (auto simp: transcodes_of_def transcode_command_not_merge)

lemma transcode_each_cases:
  "transcode_each e maj vs acc w = (r, w') \<Longrightarrow>
   \<exists>ts. ran w' = ran w @ ts \<and> transcodes_of e maj vs ts
     \<and> (case r of
          Inl err \<Rightarrow> \<exists>v \<in> set vs. \<exists>w''. get_media_info e w'' v = Inl err
        | Inr out \<Rightarrow>
            \<exists>new. out = acc @ new
              \<and> (\<forall>v \<in> set vs. transcoded_among e maj new v \<or> transcode_failed e maj ts v))"
proof (induction vs arbitrary: acc w)
  case Nil
  then have "r = Inr acc" and "w' = w" by simp_all
  then show ?case by (simp add: transcodes_of_Nil)
next
  case (Cons v vs)
  show ?case
  proof (cases "get_media_info e w v")
    case (Inl err)
    with Cons.prems have "r = Inl err" and "w' = w" by simp_all
    with Inl show ?thesis by (auto simp: transcodes_of_Nil)
  next
    case (Inr info)
    let ?t = "if fps_or_0 info \<noteq> maj then Some maj else None"
    let ?p = "transcoded_path e v ?t"
    have t_in: "?t \<in> set [None, Some maj]" by simp
    obtain r1 w1 where tv: "transcode_video e v ?t w = (r1, w1)"
      by (cases "transcode_video e v ?t w")
    have step: "\<exists>evs1. ran w1 = ran w @ evs1 \<and> transcodes_of e maj (v # vs) evs1
        \<and> (r1 = Inr ?p \<or> (r1 = Inl RuntimeError \<and> transcode_failed e maj evs1 v))"
      using transcode_video_cases [OF tv]
    proof (elim disjE exE conjE)
      assume "r1 = Inr ?p" and "w1 = w"
      then have "ran w1 = ran w @ [] \<and> transcodes_of e maj (v # vs) []
        \<and> (r1 = Inr ?p \<or> (r1 = Inl RuntimeError \<and> transcode_failed e maj [] v))"
        by (simp add: transcodes_of_Nil)
      then show ?thesis by (rule exI)
    next
      fix ended :: proc_result
      let ?ev = "(transcode_command e v ?t, ended)"
      assume run: "ran w1 = ran w @ [?ev]"
        and res: "r1 = (if failed ended then Inl RuntimeError else Inr ?p)"
      have "transcodes_of e maj (v # vs) [?ev]" by (rule transcodes_of_single [OF t_in])
      moreover have "r1 = Inr ?p \<or> (r1 = Inl RuntimeError \<and> transcode_failed e maj [?ev] v)"
        using res transcode_failed_single [OF t_in, of ended e v] by (cases "failed ended") simp_all
      ultimately have "ran w1 = ran w @ [?ev] \<and> transcodes_of e maj (v # vs) [?ev]
        \<and> (r1 = Inr ?p \<or> (r1 = Inl RuntimeError \<and> transcode_failed e maj [?ev] v))"
        using run by simp
      then show ?thesis by (rule exI)
    qed
    then obtain evs1 where evs1: "ran w1 = ran w @ evs1" "transcodes_of e maj (v # vs) evs1"
      and r1: "r1 = Inr ?p \<or> (r1 = Inl RuntimeError \<and> transcode_failed e maj evs1 v)"
      by blast
    from r1 show ?thesis
    proof
      assume kept: "r1 = Inr ?p"
      with Cons.prems Inr tv have "transcode_each e maj vs (acc @ [?p]) w1 = (r, w')"
        by (simp add: Let_def)
      from Cons.IH [OF this] obtain ts2 where
        ts2: "ran w' = ran w1 @ ts2" "transcodes_of e maj vs ts2"
        and rest: "case r of
            Inl err \<Rightarrow> \<exists>v \<in> set vs. \<exists>w''. get_media_info e w'' v = Inl err
          | Inr out \<Rightarrow>
              \<exists>new. out = (acc @ [?p]) @ new
                \<and> (\<forall>v \<in> set vs. transcoded_among e maj new v \<or> transcode_failed e maj ts2 v)"
        by blast
      have tr: "ran w' = ran w @ (evs1 @ ts2)" using evs1(1) ts2(1) by simp
      have all: "transcodes_of e maj (v # vs) (evs1 @ ts2)"
        using evs1(2) ts2(2) by (simp add: transcodes_of_append transcodes_of_Cons)
      have "case r of
            Inl err \<Rightarrow> \<exists>v' \<in> set (v # vs). \<exists>w''. get_media_info e w'' v' = Inl err
          | Inr out \<Rightarrow>
              \<exists>new. out = acc @ new
                \<and> (\<forall>v' \<in> set (v # vs).
                      transcoded_among e maj new v' \<or> transcode_failed e maj (evs1 @ ts2) v')"
      proof (cases r)
        case (Inl err)
        with rest show ?thesis by auto
      next
        case (Inr out)
        with rest obtain new2 where new2: "out = (acc @ [?p]) @ new2"
          "\<forall>v' \<in> set vs. transcoded_among e maj new2 v' \<or> transcode_failed e maj ts2 v'"
          by auto
        have "out = acc @ (?p # new2)" using new2(1) by simp
        moreover have "\<forall>v' \<in> set (v # vs).
            transcoded_among e maj (?p # new2) v' \<or> transcode_failed e maj (evs1 @ ts2) v'"
          using new2(2) transcoded_among_head [OF t_in, of e v new2]
          by (auto intro: transcoded_among_Cons transcode_failed_append)
        ultimately have "\<exists>new. out = acc @ new
                \<and> (\<forall>v' \<in> set (v # vs).
                      transcoded_among e maj new v' \<or> transcode_failed e maj (evs1 @ ts2) v')"
          by blast
        with Inr show ?thesis by simp
      qed
      with tr all show ?thesis by blast
    next
      assume lost: "r1 = Inl RuntimeError \<and> transcode_failed e maj evs1 v"
      with Cons.prems Inr tv have "transcode_each e maj vs acc w1 = (r, w')"
        by (simp add: Let_def)
      from Cons.IH [OF this] obtain ts2 where
        ts2: "ran w' = ran w1 @ ts2" "transcodes_of e maj vs ts2"
        and rest: "case r of
            Inl err \<Rightarrow> \<exists>v \<in> set vs. \<exists>w''. get_media_info e w'' v = Inl err
          | Inr out \<Rightarrow>
              \<exists>new. out = acc @ new
                \<and> (\<forall>v \<in> set vs. transcoded_among e maj new v \<or> transcode_failed e maj ts2 v)"
        by blast
      have tr: "ran w' = ran w @ (evs1 @ ts2)" using evs1(1) ts2(1) by simp
      have all: "transcodes_of e maj (v # vs) (evs1 @ ts2)"
        using evs1(2) ts2(2) by (simp add: transcodes_of_append transcodes_of_Cons)
      have "case r of
            Inl err \<Rightarrow> \<exists>v' \<in> set (v # vs). \<exists>w''. get_media_info e w'' v' = Inl err
          | Inr out \<Rightarrow>
              \<exists>new. out = acc @ new
                \<and> (\<forall>v' \<in> set (v # vs).
                      transcoded_among e maj new v' \<or> transcode_failed e maj (evs1 @ ts2) v')"
      proof (cases r)
        case (Inl err)
        with rest show ?thesis by auto
      next
        case (Inr out)
        with rest obtain new2 where new2: "out = acc @ new2"
          "\<forall>v' \<in> set vs. transcoded_among e maj new2 v' \<or> transcode_failed e maj ts2 v'"
          by auto
        have "\<forall>v' \<in> set (v # vs).
            transcoded_among e maj new2 v' \<or> transcode_failed e maj (evs1 @ ts2) v'"
          using new2(2) lost by (auto intro: transcode_failed_append)
        with new2(1) have "\<exists>new. out = acc @ new
                \<and> (\<forall>v' \<in> set (v # vs).
                      transcoded_among e maj new v' \<or> transcode_failed e maj (evs1 @ ts2) v')"
          by blast
        with Inr show ?thesis by simp
      qed
      with tr all show ?thesis by blast
    qed
  qed
qed

lemma hardware_merge_command:
  "hardware_merge (merge_command e cl music out True has_music d)"
  by (simp add: hardware_merge_def is_merge_def merge_command_def)

lemma stream_copy_merge_command:
  "is_merge (merge_command e cl music out False has_music d)
   \<and> \<not> hardware_merge (merge_command e cl music out False has_music d)"
  by (simp add: hardware_merge_def is_merge_def merge_command_def)

lemma get_duration_error:
  "get_duration e w m = Inl err \<Longrightarrow> get_media_info e w m = Inl err"
  by (simp add: get_duration_def split: sum.splits)

lemma merge_cases:
  assumes "merge_videos_with_music e cl (Some m) out hw w = (r, w')"
  shows "(\<exists>err. get_media_info e w m = Inl err \<and> r = Inl err \<and> w' = w)
     \<or> (\<exists>command. (\<exists>has_music d. command = merge_command e cl (Some m) out hw has_music d)
           \<and> ran w' = ran w @ [(command, fst (ffmpeg e w command))]
           \<and> r = (if failed (fst (ffmpeg e w command)) then Inl RuntimeError else Inr ()))"
proof -
  let ?hm = "exists_file w m"
  show ?thesis
  proof (cases "if ?hm then get_duration e w m else Inr 0")
    case (Inl err)
    then have probe: "get_media_info e w m = Inl err"
      by (cases ?hm) (simp_all add: get_duration_error)
    from assms Inl have "r = Inl err \<and> w' = w"
      by (auto simp: merge_videos_with_music_def Let_def)
    with probe show ?thesis by blast
  next
    case (Inr d)
    let ?command = "merge_command e cl (Some m) out hw ?hm d"
    from Inr assms have "run_ffmpeg e ?command (if ?hm then d else 0) w = (r, w')"
      by (simp add: merge_videos_with_music_def Let_def)
    from run_ffmpeg_result [OF this] have
      "(\<exists>has_music d. ?command = merge_command e cl (Some m) out hw has_music d)
           \<and> ran w' = ran w @ [(?command, fst (ffmpeg e w ?command))]
           \<and> r = (if failed (fst (ffmpeg e w ?command)) then Inl RuntimeError else Inr ())"
      by blast
    then show ?thesis by blast
  qed
qed



lemma transcode_path_cases:
  assumes "transcode_path e videos maj music w0 = (r, w')"
  shows "\<exists>ts. transcodes_of e maj videos ts
     \<and> ((ran w' = ran w0 @ ts
          \<and> (\<exists>err u w''. r = Inl err \<and> get_media_info e w'' u = Inl err))
        \<or> (ran w' = ran w0 @ ts \<and> r = Inr ()
            \<and> (\<forall>v \<in> set videos. transcode_failed e maj ts v))
        \<or> (\<exists>transcoded w4 command.
              transcoded \<noteq> []
              \<and> (\<forall>v \<in> set videos.
                    transcoded_among e maj transcoded v \<or> transcode_failed e maj ts v)
              \<and> ran w4 = ran w0 @ ts
              \<and> files w4 (joinpath TRANSCODED_DIR ''concat_list.txt'')
                  = Some (concat (map manifest_entry transcoded))
              \<and> hardware_merge command
              \<and> command ! 7 = joinpath TRANSCODED_DIR ''concat_list.txt''
              \<and> ran w' = ran w0 @ ts @ [(command, fst (ffmpeg e w4 command))]
              \<and> r = (if failed (fst (ffmpeg e w4 command)) then Inl RuntimeError
                     else Inr ())))"
proof -
  let ?list = "joinpath TRANSCODED_DIR ''concat_list.txt''"
  obtain r1 w1 where each: "transcode_each e maj videos [] w0 = (r1, w1)"
    by (cases "transcode_each e maj videos [] w0")
  from transcode_each_cases [OF each] obtain ts where
    ts: "ran w1 = ran w0 @ ts" "transcodes_of e maj videos ts"
    and shape: "case r1 of
          Inl err \<Rightarrow> \<exists>v \<in> set videos. \<exists>w''. get_media_info e w'' v = Inl err
        | Inr out \<Rightarrow>
            \<exists>new. out = [] @ new
              \<and> (\<forall>v \<in> set videos. transcoded_among e maj new v \<or> transcode_failed e maj ts v)"
    by blast
  have "(ran w' = ran w0 @ ts
          \<and> (\<exists>err u w''. r = Inl err \<and> get_media_info e w'' u = Inl err))
        \<or> (ran w' = ran w0 @ ts \<and> r = Inr ()
            \<and> (\<forall>v \<in> set videos. transcode_failed e maj ts v))
        \<or> (\<exists>transcoded w4 command.
              transcoded \<noteq> []
              \<and> (\<forall>v \<in> set videos.
                    transcoded_among e maj transcoded v \<or> transcode_failed e maj ts v)
              \<and> ran w4 = ran w0 @ ts
              \<and> files w4 ?list = Some (concat (map manifest_entry transcoded))
              \<and> hardware_merge command
              \<and> command ! 7 = ?list
              \<and> ran w' = ran w0 @ ts @ [(command, fst (ffmpeg e w4 command))]
              \<and> r = (if failed (fst (ffmpeg e w4 command)) then Inl RuntimeError
                     else Inr ()))"
  proof (cases r1)
    case (Inl err)
    with assms each have "r = Inl err" and "w' = w1" by (simp_all add: transcode_path_def)
    moreover from Inl shape obtain v w'' where "get_media_info e w'' v = Inl err" by auto
    ultimately show ?thesis using ts(1) by blast
  next
    case (Inr transcoded)
    with shape have every:
      "\<forall>v \<in> set videos. transcoded_among e maj transcoded v \<or> transcode_failed e maj ts v"
      by simp
    show ?thesis
    proof (cases "transcoded = []")
      case True
      with assms each Inr have "r = Inr ()" and "w' = w1" by (simp_all add: transcode_path_def)
      moreover from every True have "\<forall>v \<in> set videos. transcode_failed e maj ts v"
        by (simp add: transcoded_among_def)
      ultimately show ?thesis using ts(1) by blast
    next
      case False
      let ?w4 = "w1\<lparr>files := (files w1)(?list \<mapsto> concat (map manifest_entry transcoded))\<rparr>"
      have ccl: "create_concatenation_list transcoded w1 = (?list, ?w4)"
        by (simp add: create_concatenation_list_def Let_def)
      have w4: "ran ?w4 = ran w0 @ ts"
        "files ?w4 ?list = Some (concat (map manifest_entry transcoded))"
        using ts(1) by simp_all
      from assms each Inr False ccl
      have "merge_videos_with_music e ?list (Some music) OUTPUT_PATH True ?w4 = (r, w')"
        by (simp add: transcode_path_def)
      from merge_cases [OF this] show ?thesis
      proof (elim disjE exE conjE)
        fix err
        assume "get_media_info e ?w4 music = Inl err" and "r = Inl err" and "w' = ?w4"
        with w4(1) have "ran w' = ran w0 @ ts
          \<and> (\<exists>err u w''. r = Inl err \<and> get_media_info e w'' u = Inl err)"
          by blast
        then show ?thesis by blast
      next
        fix command has_music d
        assume cmd: "command = merge_command e ?list (Some music) OUTPUT_PATH True has_music d"
          and run: "ran w' = ran ?w4 @ [(command, fst (ffmpeg e ?w4 command))]"
          and res: "r = (if failed (fst (ffmpeg e ?w4 command)) then Inl RuntimeError
                     else Inr ())"
        from cmd have hw: "hardware_merge command" by (simp add: hardware_merge_command)
        from cmd have arg: "command ! 7 = ?list" by (simp add: merge_command_def)
        from run w4(1) have run': "ran w' = ran w0 @ ts @ [(command, fst (ffmpeg e ?w4 command))]"
          by simp
        from False every w4 hw arg run' res
        have "\<exists>transcoded w4 command.
              transcoded \<noteq> []
              \<and> (\<forall>v \<in> set videos.
                    transcoded_among e maj transcoded v \<or> transcode_failed e maj ts v)
              \<and> ran w4 = ran w0 @ ts
              \<and> files w4 ?list = Some (concat (map manifest_entry transcoded))
              \<and> hardware_merge command
              \<and> command ! 7 = ?list
              \<and> ran w' = ran w0 @ ts @ [(command, fst (ffmpeg e w4 command))]
              \<and> r = (if failed (fst (ffmpeg e w4 command)) then Inl RuntimeError
                     else Inr ())"
          by (intro exI [of _ transcoded] exI [of _ ?w4] exI [of _ command]) simp
        then show ?thesis by blast
      qed
    qed
  qed
  with ts(2) show ?thesis by blast
qed

text \<open>
  Claim C8: in the Orchestrator a merge failure on the fast (stream-copy) path triggers
  exactly one fallback, a transition to the transcode path with hardware encoding: main
  continues as the transcode path from the world the failed merge left, in which the
  fast path has run one command, the failed stream-copy merge (or none, when the probe of
  the music file itself raised RuntimeError). The transcode path, from any world, runs
  transcodes of the videos and nothing else, and then ends in one of three ways: a probe
  raised and the run ends with that exception; every transcode failed and the run
  returns; or some videos were transcoded, the manifest lists them, and exactly one
  merge, a hardware merge reading that manifest, is the last command run, whose failure
  ends the run with RuntimeError, with no retry and no further fallback.
\<close>

theorem fast_path_failure_single_fallback:
  assumes "iterdir e w VIDEO_DIR = Inr entries"
    and "discover_videos e entries = videos" and "videos \<noteq> []"
    and "iterdir e w MUSIC_DIR = Inr music_entries"
    and "discover_music e music_entries = music_file # others"
    and "find_majority_frame_rate e w videos = Inr (True, majority_fps)"
    and "create_concatenation_list videos w = (concat_list, w1)"
    and "merge_videos_with_music e concat_list (Some music_file) OUTPUT_PATH False w1
           = (Inl RuntimeError, w2)"
  shows "main e w = transcode_path e videos majority_fps music_file w2
     \<and> ((ran w2 = ran w \<and> get_media_info e w1 music_file = Inl RuntimeError)
        \<or> (\<exists>command. is_merge command \<and> \<not> hardware_merge command
              \<and> command ! 7 = concat_list
              \<and> failed (fst (ffmpeg e w1 command))
              \<and> ran w2 = ran w @ [(command, fst (ffmpeg e w1 command))]))
     \<and> (\<forall>w0. \<exists>ts. transcodes_of e majority_fps videos ts
           \<and> (\<forall>ev \<in> set ts. \<not> is_merge (fst ev))
           \<and> ((ran (snd (transcode_path e videos majority_fps music_file w0)) = ran w0 @ ts
                \<and> (\<exists>err u w''.
                      fst (transcode_path e videos majority_fps music_file w0) = Inl err
                      \<and> get_media_info e w'' u = Inl err))
              \<or> (ran (snd (transcode_path e videos majority_fps music_file w0)) = ran w0 @ ts
                  \<and> fst (transcode_path e videos majority_fps music_file w0) = Inr ()
                  \<and> (\<forall>v \<in> set videos. transcode_failed e majority_fps ts v))
              \<or> (\<exists>transcoded w4 command.
                    transcoded \<noteq> []
                    \<and> (\<forall>v \<in> set videos.
                          transcoded_among e majority_fps transcoded v
                          \<or> transcode_failed e majority_fps ts v)
                    \<and> ran w4 = ran w0 @ ts
                    \<and> files w4 (joinpath TRANSCODED_DIR ''concat_list.txt'')
                        = Some (concat (map manifest_entry transcoded))
                    \<and> hardware_merge command
                    \<and> command ! 7 = joinpath TRANSCODED_DIR ''concat_list.txt''
                    \<and> ran (snd (transcode_path e videos majority_fps music_file w0))
                        = ran w0 @ ts @ [(command, fst (ffmpeg e w4 command))]
                    \<and> fst (transcode_path e videos majority_fps music_file w0)
                        = (if failed (fst (ffmpeg e w4 command)) then Inl RuntimeError
                           else Inr ()))))"
proof -
  have "main e w = process_videos e videos music_file w"
    using assms(1-5) by (simp add: main_def)
  also have "\<dots> = transcode_path e videos majority_fps music_file w2"
    using assms(6-8) by (simp add: process_videos_def)
  finally have fallback: "main e w = transcode_path e videos majority_fps music_file w2" .
  have same: "ran w1 = ran w" and list: "concat_list = joinpath TRANSCODED_DIR ''concat_list.txt''"
    using assms(7) by (auto simp: create_concatenation_list_def Let_def)
  have fast: "(ran w2 = ran w \<and> get_media_info e w1 music_file = Inl RuntimeError)
        \<or> (\<exists>command. is_merge command \<and> \<not> hardware_merge command
              \<and> command ! 7 = concat_list
              \<and> failed (fst (ffmpeg e w1 command))
              \<and> ran w2 = ran w @ [(command, fst (ffmpeg e w1 command))])"
    using merge_cases [OF assms(8)]
  proof (elim disjE exE conjE)
    fix err
    assume "get_media_info e w1 music_file = Inl err" and "Inl RuntimeError = Inl err"
      and "w2 = w1"
    with same show ?thesis by simp
  next
    fix command has_music d
    assume cmd: "command = merge_command e concat_list (Some music_file) OUTPUT_PATH False
                             has_music d"
      and run: "ran w2 = ran w1 @ [(command, fst (ffmpeg e w1 command))]"
      and res: "Inl RuntimeError
                  = (if failed (fst (ffmpeg e w1 command)) then Inl RuntimeError else Inr ())"
    from res have bad: "failed (fst (ffmpeg e w1 command))"
      by (cases "failed (fst (ffmpeg e w1 command))") simp_all
    from cmd have "is_merge command \<and> \<not> hardware_merge command"
      by (simp add: stream_copy_merge_command)
    moreover from cmd have "command ! 7 = concat_list" by (simp add: merge_command_def)
    ultimately show ?thesis using bad run same by auto
  qed
  have path: "\<exists>ts. transcodes_of e majority_fps videos ts
           \<and> (\<forall>ev \<in> set ts. \<not> is_merge (fst ev))
           \<and> ((ran (snd (transcode_path e videos majority_fps music_file w0)) = ran w0 @ ts
                \<and> (\<exists>err u w''.
                      fst (transcode_path e videos majority_fps music_file w0) = Inl err
                      \<and> get_media_info e w'' u = Inl err))
              \<or> (ran (snd (transcode_path e videos majority_fps music_file w0)) = ran w0 @ ts
                  \<and> fst (transcode_path e videos majority_fps music_file w0) = Inr ()
                  \<and> (\<forall>v \<in> set videos. transcode_failed e majority_fps ts v))
              \<or> (\<exists>transcoded w4 command.
                    transcoded \<noteq> []
                    \<and> (\<forall>v \<in> set videos.
                          transcoded_among e majority_fps transcoded v
                          \<or> transcode_failed e majority_fps ts v)
                    \<and> ran w4 = ran w0 @ ts
                    \<and> files w4 (joinpath TRANSCODED_DIR ''concat_list.txt'')
                        = Some (concat (map manifest_entry transcoded))
                    \<and> hardware_merge command
                    \<and> command ! 7 = joinpath TRANSCODED_DIR ''concat_list.txt''
                    \<and> ran (snd (transcode_path e videos majority_fps music_file w0))
                        = ran w0 @ ts @ [(command, fst (ffmpeg e w4 command))]
                    \<and> fst (transcode_path e videos majority_fps music_file w0)
                        = (if failed (fst (ffmpeg e w4 command)) then Inl RuntimeError
                           else Inr ())))" for w0
    by (rule ex_conj_insert [where P = "transcodes_of e majority_fps videos",
          OF transcode_path_cases [of e videos majority_fps music_file w0]])
       (simp_all add: transcodes_are_not_merges)
  from fallback fast path show ?thesis by blast
qed

theorem fast_path_failure_single_fallback_witness:
  "main sample_env sample_world
     = transcode_path sample_env [joinpath VIDEO_DIR ''a.mp4'', joinpath VIDEO_DIR ''b.mp4''] 30
         (joinpath MUSIC_DIR ''song.mp3'')
         (snd (merge_videos_with_music sample_env (joinpath TRANSCODED_DIR ''concat_list.txt'')
                 (Some (joinpath MUSIC_DIR ''song.mp3'')) OUTPUT_PATH False
                 (snd (create_concatenation_list [joinpath VIDEO_DIR ''a.mp4'', joinpath VIDEO_DIR ''b.mp4'']
                         sample_world))))
   \<and> fst (main sample_env sample_world) = Inr ()
   \<and> ran (snd (main sample_env sample_world))
     = [([''ffmpeg'', ''-y'', ''-f'', ''concat'', ''-safe'', ''0'',
          ''-i'', joinpath TRANSCODED_DIR ''concat_list.txt'',
          ''-i'', joinpath MUSIC_DIR ''song.mp3'',
          ''-filter_complex'',
          ''[0:v]trim=duration=30.0,fade=t=in:st=0:d=0.5,fade=t=out:st=29.0:d=1.0[v]'',
          ''-map'', ''[v]'', ''-map'', ''1:a'', ''-t'', ''30.0'',
          ''-c:v'', ''copy'', ''-c:a'', ''aac'', OUTPUT_PATH], Exited 1),
        ([''ffmpeg'', ''-y'', ''-i'', joinpath VIDEO_DIR ''a.mp4'', ''-c:v'', ''h264_nvenc'',
          ''-c:a'', ''aac'', ''-b:a'', ''128k'', joinpath TRANSCODED_DIR ''a_h264.mp4''],
         Exited 0),
        ([''ffmpeg'', ''-y'', ''-i'', joinpath VIDEO_DIR ''b.mp4'', ''-c:v'', ''h264_nvenc'',
          ''-c:a'', ''aac'', ''-b:a'', ''128k'', joinpath TRANSCODED_DIR ''b_h264.mp4''],
         Exited 0),
        ([''ffmpeg'', ''-y'', ''-f'', ''concat'', ''-safe'', ''0'',
          ''-i'', joinpath TRANSCODED_DIR ''concat_list.txt'',
          ''-i'', joinpath MUSIC_DIR ''song.mp3'',
          ''-filter_complex'',
          ''[0:v]trim=duration=30.0,fade=t=in:st=0:d=0.5,fade=t=out:st=29.0:d=1.0[v]'',
          ''-map'', ''[v]'', ''-map'', ''1:a'', ''-t'', ''30.0'',
          ''-c:v'', ''h264_nvenc'', ''-c:a'', ''aac'', ''-preset'', ''p5'', OUTPUT_PATH],
         Exited 0)]
   \<and> files (snd (main sample_env sample_world)) (joinpath TRANSCODED_DIR ''concat_list.txt'')
     = Some (concat (map manifest_entry
         [joinpath TRANSCODED_DIR ''a_h264.mp4'', joinpath TRANSCODED_DIR ''b_h264.mp4'']))"
proof -
  let ?entries = "[joinpath VIDEO_DIR ''b.mp4'', joinpath VIDEO_DIR ''a.mp4'',
                   joinpath VIDEO_DIR ''Music'', joinpath VIDEO_DIR ''final_video_fast.mp4'']"
  let ?vs = "[joinpath VIDEO_DIR ''a.mp4'', joinpath VIDEO_DIR ''b.mp4'']"
  let ?song = "joinpath MUSIC_DIR ''song.mp3''"
  let ?ccl = "create_concatenation_list ?vs sample_world"
  let ?fast = "merge_videos_with_music sample_env (fst ?ccl) (Some ?song) OUTPUT_PATH False
                 (snd ?ccl)"
  have h1: "iterdir sample_env sample_world VIDEO_DIR = Inr ?entries"
    by (simp add: sample_env_def)
  have h2: "discover_videos sample_env ?entries = ?vs" by code_simp
  have h3: "?vs \<noteq> []" by simp
  have h4: "iterdir sample_env sample_world MUSIC_DIR = Inr [?song]" by code_simp
  have h5: "discover_music sample_env [?song] = ?song # []" by code_simp
  have h6: "find_majority_frame_rate sample_env sample_world ?vs = Inr (True, 30)"
    by code_simp
  have h7: "?ccl = (fst ?ccl, snd ?ccl)" by simp
  have "fst ?fast = Inl RuntimeError" by code_simp
  then have h8: "?fast = (Inl RuntimeError, snd ?fast)" by (simp add: prod_eq_iff)
  have list_file: "fst ?ccl = joinpath TRANSCODED_DIR ''concat_list.txt''"
    by (simp add: create_concatenation_list_def Let_def)
  note fallback = fast_path_failure_single_fallback [OF h1 h2 h3 h4 h5 h6 h7 h8,
      THEN conjunct1, unfolded list_file]
  have run: "fst (main sample_env sample_world) = Inr ()
   \<and> ran (snd (main sample_env sample_world))
     = [([''ffmpeg'', ''-y'', ''-f'', ''concat'', ''-safe'', ''0'',
          ''-i'', joinpath TRANSCODED_DIR ''concat_list.txt'',
          ''-i'', joinpath MUSIC_DIR ''song.mp3'',
          ''-filter_complex'',
          ''[0:v]trim=duration=30.0,fade=t=in:st=0:d=0.5,fade=t=out:st=29.0:d=1.0[v]'',
          ''-map'', ''[v]'', ''-map'', ''1:a'', ''-t'', ''30.0'',
          ''-c:v'', ''copy'', ''-c:a'', ''aac'', OUTPUT_PATH], Exited 1),
        ([''ffmpeg'', ''-y'', ''-i'', joinpath VIDEO_DIR ''a.mp4'', ''-c:v'', ''h264_nvenc'',
          ''-c:a'', ''aac'', ''-b:a'', ''128k'', joinpath TRANSCODED_DIR ''a_h264.mp4''],
         Exited 0),
        ([''ffmpeg'', ''-y'', ''-i'', joinpath VIDEO_DIR ''b.mp4'', ''-c:v'', ''h264_nvenc'',
          ''-c:a'', ''aac'', ''-b:a'', ''128k'', joinpath TRANSCODED_DIR ''b_h264.mp4''],
         Exited 0),
        ([''ffmpeg'', ''-y'', ''-f'', ''concat'', ''-safe'', ''0'',
          ''-i'', joinpath TRANSCODED_DIR ''concat_list.txt'',
          ''-i'', joinpath MUSIC_DIR ''song.mp3'',
          ''-filter_complex'',
          ''[0:v]trim=duration=30.0,fade=t=in:st=0:d=0.5,fade=t=out:st=29.0:d=1.0[v]'',
          ''-map'', ''[v]'', ''-map'', ''1:a'', ''-t'', ''30.0'',
          ''-c:v'', ''h264_nvenc'', ''-c:a'', ''aac'', ''-preset'', ''p5'', OUTPUT_PATH],
         Exited 0)]
   \<and> files (snd (main sample_env sample_world)) (joinpath TRANSCODED_DIR ''concat_list.txt'')
     = Some (concat (map manifest_entry
         [joinpath TRANSCODED_DIR ''a_h264.mp4'', joinpath TRANSCODED_DIR ''b_h264.mp4'']))"
    by code_simp
  from fallback run show ?thesis by (rule conjI)
qed



subsection \<open>Discovery\<close>



end
